theory Spec2Isabelle
  imports Main "HOL-Library.AList"
begin

section \<open>Python values, exceptions and the observable trace\<close>

text \<open>
  The module \<^verbatim>\<open>databases_companion/decorators.py\<close> wraps arbitrary Python callables.
  What the interpreter and the standard library do (refused calls, \<^verbatim>\<open>isinstance\<close>,
  \<^verbatim>\<open>inspect\<close>, \<^verbatim>\<open>decimal\<close>) follows CPython 3.11.
  The values that flow through it are modelled by one datatype. A float is kept as
  sign, numerator and binary exponent (the value is \<open>n / 2 ^ k\<close>); a
  \<^verbatim>\<open>decimal.Decimal\<close> as sign, coefficient and exponent, or a special value.
  Dictionaries are association lists in insertion order with string keys; a session
  object is identified by a number.
\<close>

type_synonym sid = nat

datatype pyfloat = Float_finite bool nat nat | Float_inf bool | Float_nan

datatype decimal = Dec_finite bool nat int | Dec_inf bool | Dec_nan bool bool nat

datatype pyval =
    PNone
  | PBool bool
  | PInt int
  | PFloat pyfloat
  | PStr string
  | PDecimal decimal
  | PList "pyval list"
  | PTuple "pyval list"
  | PDict "(string \<times> pyval) list"
  | PSession sid

type_synonym pydict = "(string \<times> pyval) list"

text \<open>Truth value testing, as used by the \<^verbatim>\<open>or\<close> of line 20 and line 38.\<close>

fun truthy :: "pyval \<Rightarrow> bool" where
  "truthy PNone = False"
| "truthy (PBool b) = b"
| "truthy (PInt i) = (i \<noteq> 0)"
| "truthy (PFloat f) = (case f of Float_finite s n k \<Rightarrow> n \<noteq> 0 | Float_inf s \<Rightarrow> True | Float_nan \<Rightarrow> True)"
| "truthy (PStr s) = (s \<noteq> [])"
| "truthy (PDecimal d) = (case d of Dec_finite s c e \<Rightarrow> c \<noteq> 0 | Dec_inf s \<Rightarrow> True | Dec_nan q s g \<Rightarrow> True)"
| "truthy (PList xs) = (xs \<noteq> [])"
| "truthy (PTuple xs) = (xs \<noteq> [])"
| "truthy (PDict d) = (d \<noteq> [])"
| "truthy (PSession s) = True"

definition py_or :: "pyval \<Rightarrow> pyval \<Rightarrow> pyval" where
  "py_or a b = (if truthy a then a else b)"

fun type_name :: "pyval \<Rightarrow> string" where
  "type_name PNone = ''NoneType''"
| "type_name (PBool b) = ''bool''"
| "type_name (PInt i) = ''int''"
| "type_name (PFloat f) = ''float''"
| "type_name (PStr s) = ''str''"
| "type_name (PDecimal d) = ''decimal.Decimal''"
| "type_name (PList xs) = ''list''"
| "type_name (PTuple xs) = ''tuple''"
| "type_name (PDict d) = ''dict''"
| "type_name (PSession s) = ''Session''"

text \<open>
  An exception is its class and the text \<^verbatim>\<open>str(e)\<close>. The classes listed are the ones
  the interpreter and the standard library raise on the paths modelled here, together
  with two families of user classes: those derived from \<^verbatim>\<open>Exception\<close> and those
  derived from \<^verbatim>\<open>BaseException\<close> only.
\<close>

datatype exc_class =
    TypeError | ValueError | KeyError | AttributeError | OverflowError | InvalidOperation
  | KeyboardInterrupt | SystemExit | GeneratorExit
  | Other_Exception string
  | Other_BaseException string

datatype pyexc = PyExc (exc_class_of: exc_class) (exc_str: string)

text \<open>\<^verbatim>\<open>except Exception\<close> catches exactly the instances of \<^verbatim>\<open>Exception\<close>.\<close>

fun is_Exception_class :: "exc_class \<Rightarrow> bool" where
  "is_Exception_class KeyboardInterrupt = False"
| "is_Exception_class SystemExit = False"
| "is_Exception_class GeneratorExit = False"
| "is_Exception_class (Other_BaseException n) = False"
| "is_Exception_class c = True"

definition isinstance_Exception :: "pyexc \<Rightarrow> bool" where
  "isinstance_Exception e = is_Exception_class (exc_class_of e)"

datatype outcome = Return pyval | Raise pyexc

text \<open>
  Everything a wrapped call does to its collaborators is recorded in a trace: the
  invocations of \<^verbatim>\<open>commit\<close>, \<^verbatim>\<open>rollback\<close> and \<^verbatim>\<open>close\<close> on a session, the records
  sent to the \<^verbatim>\<open>alchemy\<close> logger, and each call of a target function with the
  positional and keyword arguments it was given, whether the function accepts them or
  not. The text of
  \<^verbatim>\<open>traceback.format_exc()\<close> is kept symbolic as the exception being handled; the
  logger and \<^verbatim>\<open>format_exc\<close> themselves return normally.
\<close>

datatype session_op = Commit | Rollback | Close

datatype event =
    Session_call session_op sid
  | Alchemy_info string
  | Alchemy_error string
  | Alchemy_error_traceback pyexc
  | Call string "pyval list" pydict

type_synonym world = "event list"

text \<open>
  The database behind a session is not part of the module: whether an operation on a
  session raises is decided by a parameter, from the operation, the session and the
  trace so far.
\<close>

type_synonym backend = "session_op \<Rightarrow> sid \<Rightarrow> world \<Rightarrow> pyexc option"

definition op_name :: "session_op \<Rightarrow> string" where
  "op_name op = (case op of Commit \<Rightarrow> ''commit'' | Rollback \<Rightarrow> ''rollback'' | Close \<Rightarrow> ''close'')"

text \<open>
  \<^verbatim>\<open>db.commit()\<close>, \<^verbatim>\<open>db.rollback()\<close>, \<^verbatim>\<open>db.close()\<close>: on a session the invocation is
  recorded and the backend decides the outcome; any other value has no such attribute.
\<close>

definition session_method :: "backend \<Rightarrow> pyval \<Rightarrow> session_op \<Rightarrow> world \<Rightarrow> pyexc option \<times> world" where
  "session_method be db op w =
     (case db of
        PSession s \<Rightarrow> (be op s w, w @ [Session_call op s])
      | _ \<Rightarrow> (Some (PyExc AttributeError
                 ([CHR 0x27] @ type_name db @ [CHR 0x27] @ '' object has no attribute ''
                  @ [CHR 0x27] @ op_name op @ [CHR 0x27])), w))"

section \<open>Callables\<close>

datatype param_kind =
  POSITIONAL_ONLY | POSITIONAL_OR_KEYWORD | VAR_POSITIONAL | KEYWORD_ONLY | VAR_KEYWORD

datatype parameter = Parameter (pname: string) (kind: param_kind) (has_default: bool)

text \<open>
  A target function is a function defined with \<^verbatim>\<open>def\<close>: its \<^verbatim>\<open>__name__\<close>, the
  module and qualified name by which the interpreter names it when a call expression is
  refused, its \<^verbatim>\<open>__qualname__\<close>, by which the errors of argument binding name it, its
  parameter list, which is also what \<^verbatim>\<open>inspect.signature\<close> reports, and its body:
  from the arguments of an accepted call and the trace so far, an outcome and the
  events it adds.
\<close>

record pyfunc =
  func_name :: string
  func_qualname :: string
  func_short_qualname :: string
  signature :: "parameter list"
  body :: "pyval list \<Rightarrow> pydict \<Rightarrow> world \<Rightarrow> outcome \<times> event list"

section \<open>Calling a function\<close>

text \<open>
  \<^verbatim>\<open>repr\<close> of a string: double quotes are chosen when the string holds an apostrophe and
  no double quote; the quote in use and the backslash are escaped, tab, newline and
  carriage return are written by letter, and the other characters that are not
  printable in hexadecimal.
\<close>

definition hex_digit :: "nat \<Rightarrow> char" where
  "hex_digit n = ''0123456789abcdef'' ! n"

definition repr_char :: "char \<Rightarrow> char \<Rightarrow> string" where
  "repr_char q c =
     (if c = q \<or> c = CHR 0x5C then [CHR 0x5C, c]
      else if c = CHR 0x09 then [CHR 0x5C, CHR ''t'']
      else if c = CHR 0x0A then [CHR 0x5C, CHR ''n'']
      else if c = CHR 0x0D then [CHR 0x5C, CHR ''r'']
      else if (of_char c :: nat) < 32 \<or> (of_char c :: nat) = 127
              \<or> (128 \<le> (of_char c :: nat) \<and> (of_char c :: nat) \<le> 160)
              \<or> (of_char c :: nat) = 173
      then [CHR 0x5C, CHR ''x'', hex_digit (of_char c div 16), hex_digit (of_char c mod 16)]
      else [c])"

definition py_repr_str :: "string \<Rightarrow> string" where
  "py_repr_str s =
     (if CHR 0x27 \<in> set s \<and> CHR 0x22 \<notin> set s
      then CHR 0x22 # concat (map (repr_char (CHR 0x22)) s) @ [CHR 0x22]
      else CHR 0x27 # concat (map (repr_char (CHR 0x27)) s) @ [CHR 0x27])"

text \<open>A text between apostrophes, as the messages of the interpreter write a name.\<close>

definition quoted :: "string \<Rightarrow> string" where
  "quoted s = CHR 0x27 # s @ [CHR 0x27]"

function dec_string :: "nat \<Rightarrow> string" where
  "dec_string n =
     (if n < 10 then [hex_digit n] else dec_string (n div 10) @ [hex_digit (n mod 10)])"
  by pat_completeness auto
termination
  by (relation "measure id") auto

declare dec_string.simps [simp del]

definition plural :: "nat \<Rightarrow> string" where
  "plural n = (if n = 1 then [] else ''s'')"

fun join_names :: "string list \<Rightarrow> string" where
  "join_names [] = []"
| "join_names [a] = a"
| "join_names [a, b] = a @ '' and '' @ b"
| "join_names [a, b, c] = a @ '', '' @ b @ '', and '' @ c"
| "join_names (a # rest) = a @ '', '' @ join_names rest"

fun join_commas :: "string list \<Rightarrow> string" where
  "join_commas [] = []"
| "join_commas [a] = a"
| "join_commas (a # rest) = a @ '', '' @ join_commas rest"

text \<open>
  The binding of the arguments of a call to the parameters of a function defined with
  \<^verbatim>\<open>def\<close>, as the interpreter does it before the body runs, with the \<^verbatim>\<open>TypeError\<close> of a
  call the function does not accept. The result holds the parameters that received an
  argument, and the \<^verbatim>\<open>*args\<close> tuple and the \<^verbatim>\<open>**kwargs\<close> dictionary where declared; a
  parameter left to its default is not in it.
\<close>

definition positional_params :: "parameter list \<Rightarrow> parameter list" where
  "positional_params ps =
     filter (\<lambda>p. kind p = POSITIONAL_ONLY \<or> kind p = POSITIONAL_OR_KEYWORD) ps"

definition params_of_kind :: "param_kind \<Rightarrow> parameter list \<Rightarrow> parameter list" where
  "params_of_kind k ps = filter (\<lambda>p. kind p = k) ps"

fun call_keywords ::
  "string \<Rightarrow> parameter list \<Rightarrow> pydict \<Rightarrow> pydict \<Rightarrow> pydict \<Rightarrow> pydict
     \<Rightarrow> pyexc + (pydict \<times> pydict)" where
  "call_keywords qualname ps kwargs [] locals kwdict = Inr (locals, kwdict)"
| "call_keywords qualname ps kwargs ((keyword, v) # rest) locals kwdict =
     (if keyword \<in> pname ` set (params_of_kind POSITIONAL_OR_KEYWORD ps)
         \<or> keyword \<in> pname ` set (params_of_kind KEYWORD_ONLY ps)
      then (if keyword \<in> fst ` set locals
            then Inl (PyExc TypeError
                   (qualname @ ''() got multiple values for argument '' @ quoted keyword))
            else call_keywords qualname ps kwargs rest (locals @ [(keyword, v)]) kwdict)
      else if params_of_kind VAR_KEYWORD ps = []
      then (if filter (\<lambda>n. n \<in> fst ` set kwargs)
                 (map pname (params_of_kind POSITIONAL_ONLY ps)) = []
            then Inl (PyExc TypeError
                   (qualname @ ''() got an unexpected keyword argument '' @ quoted keyword))
            else Inl (PyExc TypeError
                   (qualname @ ''() got some positional-only arguments passed as ''
                    @ ''keyword arguments: ''
                    @ quoted (join_commas (filter (\<lambda>n. n \<in> fst ` set kwargs)
                        (map pname (params_of_kind POSITIONAL_ONLY ps)))))))
      else call_keywords qualname ps kwargs rest locals (kwdict @ [(keyword, v)]))"

definition too_many_positional :: "string \<Rightarrow> parameter list \<Rightarrow> nat \<Rightarrow> pydict \<Rightarrow> pyexc" where
  "too_many_positional qualname ps given locals =
     (let co_argcount = length (positional_params ps);
          defcount = length (filter has_default (positional_params ps));
          kwonly_given = length (filter (\<lambda>p. pname p \<in> fst ` set locals)
                                   (params_of_kind KEYWORD_ONLY ps))
      in PyExc TypeError
           (qualname @ ''() takes ''
            @ (if defcount \<noteq> 0
               then ''from '' @ dec_string (co_argcount - defcount) @ '' to ''
                    @ dec_string co_argcount @ '' positional arguments''
               else dec_string co_argcount @ '' positional argument'' @ plural co_argcount)
            @ '' but '' @ dec_string given
            @ (if kwonly_given \<noteq> 0
               then '' positional argument'' @ plural given @ '' (and ''
                    @ dec_string kwonly_given @ '' keyword-only argument''
                    @ plural kwonly_given @ '')''
               else [])
            @ (if given = 1 \<and> kwonly_given = 0 then '' was'' else '' were'')
            @ '' given''))"

definition missing_arguments :: "string \<Rightarrow> string \<Rightarrow> string list \<Rightarrow> pyexc" where
  "missing_arguments qualname what names =
     PyExc TypeError
       (qualname @ ''() missing '' @ dec_string (length names) @ '' required '' @ what
        @ '' argument'' @ plural (length names) @ '': ''
        @ join_names (map py_repr_str names))"

definition unbound :: "pydict \<Rightarrow> parameter list \<Rightarrow> string list" where
  "unbound locals ps =
     map pname (filter (\<lambda>p. pname p \<notin> fst ` set locals \<and> \<not> has_default p) ps)"

definition bind_call :: "string \<Rightarrow> parameter list \<Rightarrow> pyval list \<Rightarrow> pydict \<Rightarrow> pyexc + pydict" where
  "bind_call qualname ps args kwargs =
     (case call_keywords qualname ps kwargs kwargs
             (zip (map pname (positional_params ps)) args) [] of
        Inl e \<Rightarrow> Inl e
      | Inr (locals, kwdict) \<Rightarrow>
          (if length (positional_params ps) < length args \<and> params_of_kind VAR_POSITIONAL ps = []
           then Inl (too_many_positional qualname ps (length args) locals)
           else if unbound locals (drop (length args) (positional_params ps)) \<noteq> []
           then Inl (missing_arguments qualname ''positional''
                  (unbound locals (drop (length args) (positional_params ps))))
           else if unbound locals (params_of_kind KEYWORD_ONLY ps) \<noteq> []
           then Inl (missing_arguments qualname ''keyword-only''
                  (unbound locals (params_of_kind KEYWORD_ONLY ps)))
           else Inr (locals
                  @ map (\<lambda>p. (pname p, PTuple (drop (length (positional_params ps)) args)))
                      (params_of_kind VAR_POSITIONAL ps)
                  @ map (\<lambda>p. (pname p, PDict kwdict)) (params_of_kind VAR_KEYWORD ps))))"

text \<open>
  \<^verbatim>\<open>func(*args, **kwargs)\<close>: the call is recorded; a call the function does not accept
  ends with the \<^verbatim>\<open>TypeError\<close> of the binding, and the body runs on an accepted one.
\<close>

definition call :: "pyfunc \<Rightarrow> pyval list \<Rightarrow> pydict \<Rightarrow> world \<Rightarrow> outcome \<times> world" where
  "call func args kwargs w =
     (case bind_call (func_short_qualname func) (signature func) args kwargs of
        Inl e \<Rightarrow> (Raise e, w @ [Call (func_name func) args kwargs])
      | Inr locals \<Rightarrow>
          (fst (body func args kwargs (w @ [Call (func_name func) args kwargs])),
           w @ [Call (func_name func) args kwargs]
             @ snd (body func args kwargs (w @ [Call (func_name func) args kwargs]))))"

text \<open>The local variables a body starts with, for a call that was accepted.\<close>

definition bound_locals :: "parameter list \<Rightarrow> pyval list \<Rightarrow> pydict \<Rightarrow> pydict" where
  "bound_locals ps args kwargs =
     (case bind_call [] ps args kwargs of Inl e \<Rightarrow> [] | Inr locals \<Rightarrow> locals)"

definition dict_get :: "pydict \<Rightarrow> string \<Rightarrow> pyval" where
  "dict_get kwargs k = (case map_of kwargs k of None \<Rightarrow> PNone | Some v \<Rightarrow> v)"

section \<open>DatabaseDecorators\<close>

record DatabaseDecorators =
  SessionLocal :: sid
  Session :: string

text \<open>\<^verbatim>\<open>__init__\<close> calls the session factory once and keeps the session it returned.\<close>

definition DatabaseDecorators_init :: "(unit \<Rightarrow> sid) \<Rightarrow> string \<Rightarrow> DatabaseDecorators" where
  "DatabaseDecorators_init SessionLocal_factory Session_class =
     \<lparr>SessionLocal = SessionLocal_factory (), Session = Session_class\<rparr>"

definition error_payload :: pyval where
  "error_payload =
     PDict [(''message'', PStr ''An unexpected error occurred. Please try again later.'')]"

text \<open>Line 20 and line 38: \<^verbatim>\<open>db = kwargs.get('db') or self.SessionLocal\<close>.\<close>

definition select_db :: "DatabaseDecorators \<Rightarrow> pydict \<Rightarrow> pyval" where
  "select_db self kwargs = py_or (dict_get kwargs ''db'') (PSession (SessionLocal self))"

text \<open>
  Line 22 and line 40: \<^verbatim>\<open>func(*args, db=db, **kwargs)\<close>. The interpreter refuses a call
  that gives one keyword twice, before the function is entered.
\<close>

definition call_with_db :: "pyfunc \<Rightarrow> pyval list \<Rightarrow> pyval \<Rightarrow> pydict \<Rightarrow> world \<Rightarrow> outcome \<times> world" where
  "call_with_db func args db kwargs w =
     (if ''db'' \<in> fst ` set kwargs
      then (Raise (PyExc TypeError
              (func_qualname func @ ''() got multiple values for keyword argument ''
               @ [CHR 0x27] @ ''db'' @ [CHR 0x27])), w)
      else call func args ((''db'', db) # kwargs) w)"

text \<open>The \<^verbatim>\<open>finally\<close> clause of both wrappers.\<close>

definition finally_close :: "backend \<Rightarrow> pyval \<Rightarrow> outcome \<times> world \<Rightarrow> outcome \<times> world" where
  "finally_close be db rw =
     (case session_method be db Close (snd rw) of
        (Some e, w') \<Rightarrow> (Raise e, w')
      | (None, w') \<Rightarrow> (fst rw, w'))"

definition error_log :: "pyfunc \<Rightarrow> pyexc \<Rightarrow> event list" where
  "error_log func e =
     [Alchemy_error (''Error occurred '' @ func_name func @ '': '' @ exc_str e),
      Alchemy_error_traceback e]"

text \<open>The \<^verbatim>\<open>except Exception\<close> clause of the mutating wrapper, lines 26 to 30.\<close>

definition except_add_delete_update ::
  "backend \<Rightarrow> pyval \<Rightarrow> pyfunc \<Rightarrow> pyexc \<Rightarrow> world \<Rightarrow> outcome \<times> world" where
  "except_add_delete_update be db func e w =
     (if isinstance_Exception e
      then (case session_method be db Rollback w of
              (Some e', w') \<Rightarrow> (Raise e', w')
            | (None, w') \<Rightarrow> (Return error_payload, w' @ error_log func e))
      else (Raise e, w))"

definition session_handler_add_delete_update ::
  "backend \<Rightarrow> DatabaseDecorators \<Rightarrow> pyfunc \<Rightarrow> pyval list \<Rightarrow> pydict \<Rightarrow> world \<Rightarrow> outcome \<times> world" where
  "session_handler_add_delete_update be self func args kwargs w =
     (let db = select_db self kwargs
      in finally_close be db
           (case call_with_db func args db kwargs w of
              (Return result, w1) \<Rightarrow>
                (case session_method be db Commit w1 of
                   (None, w2) \<Rightarrow>
                     (Return result,
                      w2 @ [Alchemy_info (func_name func @ '' executed successfully'')])
                 | (Some e, w2) \<Rightarrow> except_add_delete_update be db func e w2)
            | (Raise e, w1) \<Rightarrow> except_add_delete_update be db func e w1))"

text \<open>The \<^verbatim>\<open>except Exception\<close> clause of the read-only wrapper, lines 43 to 46.\<close>

definition except_query :: "pyfunc \<Rightarrow> pyexc \<Rightarrow> world \<Rightarrow> outcome \<times> world" where
  "except_query func e w =
     (if isinstance_Exception e then (Return error_payload, w @ error_log func e)
      else (Raise e, w))"

definition session_handler_query ::
  "backend \<Rightarrow> DatabaseDecorators \<Rightarrow> pyfunc \<Rightarrow> pyval list \<Rightarrow> pydict \<Rightarrow> world \<Rightarrow> outcome \<times> world" where
  "session_handler_query be self func args kwargs w =
     (let db = select_db self kwargs
      in finally_close be db
           (case call_with_db func args db kwargs w of
              (Return result, w1) \<Rightarrow>
                (Return result,
                 w1 @ [Alchemy_info (func_name func @ '' executed successfully'')])
            | (Raise e, w1) \<Rightarrow> except_query func e w1))"


section \<open>Dictionaries\<close>

text \<open>
  \<^verbatim>\<open>d[k] = v\<close> is \<^const>\<open>AList.update\<close> (an existing key keeps its place, a new one is
  appended), \<^verbatim>\<open>d.pop(k)\<close> removes the key with \<^const>\<open>AList.delete\<close>, and
  \<^verbatim>\<open>d.update(e)\<close> stores the entries of \<open>e\<close> one after the other.
\<close>

definition dict_update :: "pydict \<Rightarrow> pydict \<Rightarrow> pydict" where
  "dict_update d e = fold (\<lambda>kv acc. AList.update (fst kv) (snd kv) acc) e d"

section \<open>Runtime type tests\<close>

text \<open>\<^verbatim>\<open>isinstance(v, T)\<close>; \<^verbatim>\<open>bool\<close> is a subclass of \<^verbatim>\<open>int\<close>.\<close>

fun isinstance_list :: "pyval \<Rightarrow> bool" where
  "isinstance_list (PList xs) = True"
| "isinstance_list v = False"

fun isinstance_int :: "pyval \<Rightarrow> bool" where
  "isinstance_int (PInt i) = True"
| "isinstance_int (PBool b) = True"
| "isinstance_int v = False"

fun isinstance_str :: "pyval \<Rightarrow> bool" where
  "isinstance_str (PStr s) = True"
| "isinstance_str v = False"

fun isinstance_float :: "pyval \<Rightarrow> bool" where
  "isinstance_float (PFloat f) = True"
| "isinstance_float v = False"

fun isinstance_dict :: "pyval \<Rightarrow> bool" where
  "isinstance_dict (PDict d) = True"
| "isinstance_dict v = False"

fun isinstance_Decimal :: "pyval \<Rightarrow> bool" where
  "isinstance_Decimal (PDecimal d) = True"
| "isinstance_Decimal v = False"

section \<open>inspect.Signature.bind_partial\<close>

text \<open>
  \<^verbatim>\<open>Signature._bind\<close> of CPython 3.11, with its \<^verbatim>\<open>partial\<close> flag. The first loop
  consumes the positional arguments and returns the mapping built so far with the
  parameters still to be looked at; the second loop takes the remaining parameters from
  the keyword arguments and remembers a \<^verbatim>\<open>**kwargs\<close>-like parameter.
\<close>

fun bind_positional ::
  "bool \<Rightarrow> pydict \<Rightarrow> parameter list \<Rightarrow> pyval list \<Rightarrow> pydict \<Rightarrow> pyexc + (pydict \<times> parameter list)" where
  "bind_positional partial kwargs [] [] arguments = Inr (arguments, [])"
| "bind_positional partial kwargs (param # parameters) [] arguments =
     (if kind param = VAR_POSITIONAL then Inr (arguments, parameters)
      else if pname param \<in> fst ` set kwargs then
        (if kind param = POSITIONAL_ONLY
         then Inl (PyExc TypeError (py_repr_str (pname param)
                @ '' parameter is positional only, but was passed as a keyword''))
         else Inr (arguments, param # parameters))
      else if kind param = VAR_KEYWORD \<or> has_default param
        then Inr (arguments, param # parameters)
      else if partial then Inr (arguments, param # parameters)
      else Inl (PyExc TypeError (''missing a required argument: '' @ py_repr_str (pname param))))"
| "bind_positional partial kwargs [] (arg_val # arg_vals) arguments =
     Inl (PyExc TypeError ''too many positional arguments'')"
| "bind_positional partial kwargs (param # parameters) (arg_val # arg_vals) arguments =
     (if kind param = VAR_KEYWORD \<or> kind param = KEYWORD_ONLY
      then Inl (PyExc TypeError ''too many positional arguments'')
      else if kind param = VAR_POSITIONAL
      then Inr (AList.update (pname param) (PTuple (arg_val # arg_vals)) arguments, parameters)
      else if pname param \<in> fst ` set kwargs \<and> kind param \<noteq> POSITIONAL_ONLY
      then Inl (PyExc TypeError (''multiple values for argument '' @ py_repr_str (pname param)))
      else bind_positional partial kwargs parameters arg_vals
             (AList.update (pname param) arg_val arguments))"

fun bind_keywords ::
  "bool \<Rightarrow> parameter list \<Rightarrow> pydict \<Rightarrow> pydict \<Rightarrow> parameter option
     \<Rightarrow> pyexc + (pydict \<times> pydict \<times> parameter option)" where
  "bind_keywords partial [] kwargs arguments kwargs_param = Inr (arguments, kwargs, kwargs_param)"
| "bind_keywords partial (param # parameters) kwargs arguments kwargs_param =
     (if kind param = VAR_KEYWORD
      then bind_keywords partial parameters kwargs arguments (Some param)
      else if kind param = VAR_POSITIONAL
      then bind_keywords partial parameters kwargs arguments kwargs_param
      else (case map_of kwargs (pname param) of
              None \<Rightarrow>
                (if \<not> partial \<and> kind param \<noteq> VAR_POSITIONAL \<and> \<not> has_default param
                 then Inl (PyExc TypeError
                        (''missing a required argument: '' @ py_repr_str (pname param)))
                 else bind_keywords partial parameters kwargs arguments kwargs_param)
            | Some arg_val \<Rightarrow>
                (if kind param = POSITIONAL_ONLY
                 then Inl (PyExc TypeError (py_repr_str (pname param)
                        @ '' parameter is positional only, but was passed as a keyword''))
                 else bind_keywords partial parameters (AList.delete (pname param) kwargs)
                        (AList.update (pname param) arg_val arguments) kwargs_param)))"

definition bind :: "bool \<Rightarrow> parameter list \<Rightarrow> pyval list \<Rightarrow> pydict \<Rightarrow> pyexc + pydict" where
  "bind partial parameters args kwargs =
     (case bind_positional partial kwargs parameters args [] of
        Inl e \<Rightarrow> Inl e
      | Inr (arguments, parameters') \<Rightarrow>
          (case bind_keywords partial parameters' kwargs arguments None of
             Inl e \<Rightarrow> Inl e
           | Inr (arguments', kwargs', kwargs_param) \<Rightarrow>
               (if kwargs' \<noteq> [] then
                  (case kwargs_param of
                     Some param \<Rightarrow> Inr (AList.update (pname param) (PDict kwargs') arguments')
                   | None \<Rightarrow> Inl (PyExc TypeError (''got an unexpected keyword argument ''
                               @ py_repr_str (fst (hd kwargs')))))
                else Inr arguments')))"

definition bind_partial :: "parameter list \<Rightarrow> pyval list \<Rightarrow> pydict \<Rightarrow> pyexc + pydict" where
  "bind_partial parameters args kwargs = bind True parameters args kwargs"

section \<open>DTypeValidator\<close>

text \<open>
  Lines 77 to 80, once for each reserved name: if the value stored under the name is a
  dictionary, it is popped and its entries are stored in the mapping.
\<close>

definition flatten_aggregate :: "string \<Rightarrow> pydict \<Rightarrow> pydict" where
  "flatten_aggregate k bound_args =
     (case dict_get bound_args k of
        PDict d \<Rightarrow> dict_update (AList.delete k bound_args) d
      | _ \<Rightarrow> bound_args)"

text \<open>
  \<^verbatim>\<open>_extract_bound_args(func, *args, **kwargs)\<close>. The helper takes the target function
  as its first positional parameter \<^verbatim>\<open>func\<close>, so a call whose keyword arguments hold a
  key \<^verbatim>\<open>func\<close> is refused by the interpreter.
\<close>

definition extract_bound_args :: "pyfunc \<Rightarrow> pyval list \<Rightarrow> pydict \<Rightarrow> pyexc + pydict" where
  "extract_bound_args func args kwargs =
     (if ''func'' \<in> fst ` set kwargs
      then Inl (PyExc TypeError (''DTypeValidator._extract_bound_args() got multiple values ''
              @ ''for argument '' @ quoted ''func''))
      else (case bind_partial (signature func) args kwargs of
              Inl e \<Rightarrow> Inl e
            | Inr bound_args \<Rightarrow>
                Inr (flatten_aggregate ''args'' (flatten_aggregate ''kwargs'' bound_args))))"

definition bad_request :: "string \<Rightarrow> pyval" where
  "bad_request reason =
     PDict [(''message'', PStr ''Bad Request''), (''errors'', PList [PStr reason])]"

text \<open>
  The loop shared by \<^verbatim>\<open>validate_list\<close>, \<^verbatim>\<open>validate_int\<close>, \<^verbatim>\<open>validate_str\<close> and
  \<^verbatim>\<open>validate_float\<close>, which differ in the type tested and in the text of the message:
  \<^verbatim>\<open>bound_args[param_name]\<close> raises \<^verbatim>\<open>KeyError\<close> for a missing name, and the first
  name whose value fails the test ends the loop. The result is that name, if any.
\<close>

fun check_params :: "(pyval \<Rightarrow> bool) \<Rightarrow> string list \<Rightarrow> pydict \<Rightarrow> pyexc + string option" where
  "check_params isinst [] bound_args = Inr None"
| "check_params isinst (param_name # param_names) bound_args =
     (case map_of bound_args param_name of
        None \<Rightarrow> Inl (PyExc KeyError (py_repr_str param_name))
      | Some v \<Rightarrow>
          (if isinst v = False then Inr (Some param_name)
           else check_params isinst param_names bound_args))"

definition type_validator ::
  "(pyval \<Rightarrow> bool) \<Rightarrow> string \<Rightarrow> string list \<Rightarrow> pyfunc \<Rightarrow> pyval list \<Rightarrow> pydict \<Rightarrow> world
     \<Rightarrow> outcome \<times> world" where
  "type_validator isinst must_be param_names func args kwargs w =
     (case extract_bound_args func args kwargs of
        Inl e \<Rightarrow> (Raise e, w)
      | Inr bound_args \<Rightarrow>
          (case check_params isinst param_names bound_args of
             Inl e \<Rightarrow> (Raise e, w)
           | Inr (Some param_name) \<Rightarrow>
               (Return (bad_request (param_name @ must_be)),
                w @ [Alchemy_error (param_name @ must_be)])
           | Inr None \<Rightarrow> call func args kwargs w))"

definition validate_list ::
  "string list \<Rightarrow> pyfunc \<Rightarrow> pyval list \<Rightarrow> pydict \<Rightarrow> world \<Rightarrow> outcome \<times> world" where
  "validate_list = type_validator isinstance_list '' must be a list''"

definition validate_int ::
  "string list \<Rightarrow> pyfunc \<Rightarrow> pyval list \<Rightarrow> pydict \<Rightarrow> world \<Rightarrow> outcome \<times> world" where
  "validate_int = type_validator isinstance_int '' must be an integer''"

definition validate_str ::
  "string list \<Rightarrow> pyfunc \<Rightarrow> pyval list \<Rightarrow> pydict \<Rightarrow> world \<Rightarrow> outcome \<times> world" where
  "validate_str = type_validator isinstance_str '' must be a string''"

definition validate_float ::
  "string list \<Rightarrow> pyfunc \<Rightarrow> pyval list \<Rightarrow> pydict \<Rightarrow> world \<Rightarrow> outcome \<times> world" where
  "validate_float = type_validator isinstance_float '' must be float''"

section \<open>decimal.Decimal\<close>

text \<open>
  The constructor \<^verbatim>\<open>Decimal(value)\<close> of CPython 3.11 (the C implementation, 64-bit),
  which converts exactly or raises. The characters of a string are code points below
  256. A string is stripped of surrounding whitespace and of underscores and read by
  the grammar of numeric strings; a result that the largest context cannot hold exactly
  is refused with \<^verbatim>\<open>InvalidOperation\<close>.
\<close>

definition is_space :: "char \<Rightarrow> bool" where
  "is_space c = (of_char c \<in> {9, 10, 11, 12, 13, 28, 29, 30, 31, 32, 133, 160 :: nat})"

definition py_strip :: "string \<Rightarrow> string" where
  "py_strip s = rev (dropWhile is_space (rev (dropWhile is_space s)))"

definition is_digit :: "char \<Rightarrow> bool" where
  "is_digit c = (48 \<le> (of_char c :: nat) \<and> (of_char c :: nat) \<le> 57)"

definition digit_value :: "char \<Rightarrow> nat" where
  "digit_value c = of_char c - 48"

definition digits_value :: "nat list \<Rightarrow> nat" where
  "digits_value ds = foldl (\<lambda>a d. 10 * a + d) 0 ds"

definition significant_digits :: "nat list \<Rightarrow> nat" where
  "significant_digits ds = max 1 (length (dropWhile (\<lambda>d. d = 0) ds))"

definition ascii_lower :: "char \<Rightarrow> char" where
  "ascii_lower c =
     (if 65 \<le> (of_char c :: nat) \<and> (of_char c :: nat) \<le> 90
      then char_of (of_char c + 32 :: nat) else c)"

definition MAX_EMAX :: int where
  "MAX_EMAX = 999999999999999999"

definition MIN_ETINY :: int where
  "MIN_ETINY = - 1999999999999999997"

definition exact_in_maxcontext :: "nat list \<Rightarrow> int \<Rightarrow> bool" where
  "exact_in_maxcontext ds e =
     (if digits_value ds = 0 then MIN_ETINY \<le> e \<and> e \<le> MAX_EMAX
      else e + int (significant_digits ds) - 1 \<le> MAX_EMAX \<and> MIN_ETINY \<le> e)"

definition conversion_syntax :: pyexc where
  "conversion_syntax =
     PyExc InvalidOperation (''[<class '' @ quoted ''decimal.ConversionSyntax'' @ ''>]'')"

definition invalid_operation :: pyexc where
  "invalid_operation =
     PyExc InvalidOperation (''[<class '' @ quoted ''decimal.InvalidOperation'' @ ''>]'')"

definition parse_exponent :: "string \<Rightarrow> int option" where
  "parse_exponent s =
     (let neg = (s \<noteq> [] \<and> hd s = CHR ''-'');
          ds = (if s \<noteq> [] \<and> (hd s = CHR ''+'' \<or> hd s = CHR ''-'') then tl s else s)
      in if ds \<noteq> [] \<and> list_all is_digit ds
         then Some ((if neg then - 1 else 1) * int (digits_value (map digit_value ds)))
         else None)"

definition parse_number :: "bool \<Rightarrow> string \<Rightarrow> pyexc + decimal" where
  "parse_number sign s =
     (let ip = takeWhile is_digit s;
          r1 = dropWhile is_digit s;
          point = (r1 \<noteq> [] \<and> hd r1 = CHR ''.'');
          fp = (if point then takeWhile is_digit (tl r1) else []);
          r2 = (if point then dropWhile is_digit (tl r1) else r1);
          ds = map digit_value (ip @ fp)
      in if ds = [] then Inl conversion_syntax
         else (case (if r2 = [] then Some 0
                     else if hd r2 = CHR ''e'' \<or> hd r2 = CHR ''E'' then parse_exponent (tl r2)
                     else None) of
                 None \<Rightarrow> Inl conversion_syntax
               | Some x \<Rightarrow>
                   (if exact_in_maxcontext ds (x - int (length fp))
                    then Inr (Dec_finite sign (digits_value ds) (x - int (length fp)))
                    else Inl invalid_operation)))"

definition nan_payload :: "bool \<Rightarrow> bool \<Rightarrow> string \<Rightarrow> pyexc + decimal" where
  "nan_payload signaling sign p =
     (if list_all is_digit p
      then Inr (Dec_nan signaling sign (digits_value (map digit_value p)))
      else Inl conversion_syntax)"

definition parse_decimal :: "string \<Rightarrow> pyexc + decimal" where
  "parse_decimal s =
     (let t = filter (\<lambda>c. c \<noteq> CHR ''_'') (py_strip s);
          sign = (t \<noteq> [] \<and> hd t = CHR ''-'');
          r = (if t \<noteq> [] \<and> (hd t = CHR ''+'' \<or> hd t = CHR ''-'') then tl t else t);
          l = map ascii_lower r
      in if take 3 l = ''nan'' then nan_payload False sign (drop 3 r)
         else if take 4 l = ''snan'' then nan_payload True sign (drop 4 r)
         else if take 3 l = ''inf''
         then (if drop 3 l = [] \<or> drop 3 l = ''inity'' then Inr (Dec_inf sign)
               else Inl conversion_syntax)
         else parse_number sign r)"

text \<open>A list or tuple is read as (sign, digits, exponent).\<close>

fun as_long :: "pyval \<Rightarrow> int option" where
  "as_long (PInt i) = Some i"
| "as_long (PBool b) = Some (if b then 1 else 0)"
| "as_long v = None"

definition fits_long :: "int \<Rightarrow> bool" where
  "fits_long i = (- 9223372036854775808 \<le> i \<and> i \<le> 9223372036854775807)"

definition bad_coefficient :: pyexc where
  "bad_coefficient = PyExc ValueError ''coefficient must be a tuple of digits''"

definition bad_sign :: pyexc where
  "bad_sign = PyExc ValueError ''sign must be an integer with the value 0 or 1''"

fun tuple_digits :: "pyval list \<Rightarrow> pyexc + nat list" where
  "tuple_digits [] = Inr []"
| "tuple_digits (v # vs) =
     (case as_long v of
        None \<Rightarrow> Inl bad_coefficient
      | Some l \<Rightarrow>
          (if \<not> fits_long l
           then Inl (PyExc OverflowError ''Python int too large to convert to C long'')
           else if l < 0 \<or> 9 < l then Inl bad_coefficient
           else (case tuple_digits vs of Inl e \<Rightarrow> Inl e | Inr ds \<Rightarrow> Inr (nat l # ds))))"

definition coefficient_digits :: "pyval \<Rightarrow> pyexc + nat list" where
  "coefficient_digits v =
     (case v of PTuple vs \<Rightarrow> tuple_digits vs | PList vs \<Rightarrow> tuple_digits vs
      | _ \<Rightarrow> Inl bad_coefficient)"

definition decimal_from_triple :: "pyval \<Rightarrow> pyval \<Rightarrow> pyval \<Rightarrow> pyexc + decimal" where
  "decimal_from_triple sg co ex =
     (case as_long sg of
        None \<Rightarrow> Inl bad_sign
      | Some sign \<Rightarrow>
          (if \<not> fits_long sign
           then Inl (PyExc OverflowError ''Python int too large to convert to C long'')
           else if sign \<noteq> 0 \<and> sign \<noteq> 1 then Inl bad_sign
           else (case ex of
                   PStr t \<Rightarrow>
                     (if t = ''F'' \<or> t = ''n'' \<or> t = ''N''
                      then (case coefficient_digits co of
                              Inl e \<Rightarrow> Inl e
                            | Inr ds \<Rightarrow>
                                Inr (if t = ''F'' then Dec_inf (sign = 1)
                                     else Dec_nan (t = ''N'') (sign = 1) (digits_value ds)))
                      else Inl (PyExc ValueError (''string argument in the third position must be ''
                             @ quoted ''F'' @ '', '' @ quoted ''n'' @ '' or ''
                             @ quoted ''N'')))
                 | _ \<Rightarrow>
                     (case as_long ex of
                        None \<Rightarrow> Inl (PyExc ValueError ''exponent must be an integer'')
                      | Some e \<Rightarrow>
                          (if \<not> fits_long e
                           then Inl (PyExc OverflowError
                                  ''Python int too large to convert to C ssize_t'')
                           else (case coefficient_digits co of
                                   Inl e' \<Rightarrow> Inl e'
                                 | Inr ds \<Rightarrow>
                                     (if exact_in_maxcontext ds e
                                      then Inr (Dec_finite (sign = 1) (digits_value ds) e)
                                      else Inl invalid_operation)))))))"

definition decimal_from_sequence :: "pyval list \<Rightarrow> pyexc + decimal" where
  "decimal_from_sequence vs =
     (case vs of
        [sg, co, ex] \<Rightarrow> decimal_from_triple sg co ex
      | _ \<Rightarrow> Inl (PyExc ValueError ''argument must be a sequence of length 3''))"

definition decimal_result :: "pyexc + decimal \<Rightarrow> pyexc + pyval" where
  "decimal_result r = (case r of Inl e \<Rightarrow> Inl e | Inr d \<Rightarrow> Inr (PDecimal d))"

fun Decimal_new :: "pyval \<Rightarrow> pyexc + pyval" where
  "Decimal_new (PDecimal d) = Inr (PDecimal d)"
| "Decimal_new (PStr s) = decimal_result (parse_decimal s)"
| "Decimal_new (PInt i) = Inr (PDecimal (Dec_finite (i < 0) (nat \<bar>i\<bar>) 0))"
| "Decimal_new (PBool b) = Inr (PDecimal (Dec_finite False (if b then 1 else 0) 0))"
| "Decimal_new (PFloat f) =
     Inr (PDecimal (case f of
            Float_finite s n k \<Rightarrow> Dec_finite s (n * 5 ^ k) (- int k)
          | Float_inf s \<Rightarrow> Dec_inf s
          | Float_nan \<Rightarrow> Dec_nan False False 0))"
| "Decimal_new (PTuple vs) = decimal_result (decimal_from_sequence vs)"
| "Decimal_new (PList vs) = decimal_result (decimal_from_sequence vs)"
| "Decimal_new v =
     Inl (PyExc TypeError (''conversion from '' @ type_name v @ '' to Decimal is not supported''))"

section \<open>DTypeValidator.validate_decimal\<close>

text \<open>
  The loop of lines 168 to 179. A name that is not in the mapping is skipped; a value
  that is no \<^verbatim>\<open>Decimal\<close> is converted and the result stored in the mapping;
  \<^verbatim>\<open>ValueError\<close> and \<^verbatim>\<open>InvalidOperation\<close> from the conversion end the loop with the
  rejection payload, any other exception leaves the wrapper. The result is the payload
  or the mapping as the loop leaves it.
\<close>

fun convert_params :: "string list \<Rightarrow> pydict \<Rightarrow> pyexc + (pyval + pydict)" where
  "convert_params [] bound_args = Inr (Inr bound_args)"
| "convert_params (param_name # param_names) bound_args =
     (case map_of bound_args param_name of
        None \<Rightarrow> convert_params param_names bound_args
      | Some v \<Rightarrow>
          (if isinstance_Decimal v then convert_params param_names bound_args
           else (case Decimal_new v of
                   Inl e \<Rightarrow>
                     (if exc_class_of e = ValueError \<or> exc_class_of e = InvalidOperation
                      then Inr (Inl (bad_request
                             ([CHR 0x27] @ param_name @ [CHR 0x27] @ '' must be a valid decimal.'')))
                      else Inl e)
                 | Inr d \<Rightarrow> convert_params param_names (AList.update param_name d bound_args))))"

definition validate_decimal ::
  "string list \<Rightarrow> pyfunc \<Rightarrow> pyval list \<Rightarrow> pydict \<Rightarrow> world \<Rightarrow> outcome \<times> world" where
  "validate_decimal param_names func args kwargs w =
     (case extract_bound_args func args kwargs of
        Inl e \<Rightarrow> (Raise e, w)
      | Inr bound_args \<Rightarrow>
          (case convert_params param_names bound_args of
             Inl e \<Rightarrow> (Raise e, w)
           | Inr (Inl payload) \<Rightarrow> (Return payload, w)
           | Inr (Inr bound_args') \<Rightarrow> call func args kwargs w))"

section \<open>The flattening step as the specification words it\<close>

text \<open>
  The mapping a dictionary with the entries \<open>d\<close> denotes when its entries are stored
  one after the other: a later entry overwrites an earlier one with the same key.
\<close>

definition entries_map :: "pydict \<Rightarrow> (string \<rightharpoonup> pyval)" where
  "entries_map d = map_of (rev d)"

text \<open>
  One level of flattening of a mapping \<open>m\<close> at a reserved name \<open>k\<close>: if \<open>k\<close> holds a
  dictionary, the entry \<open>k\<close> is removed and the dictionary's entries are promoted,
  overwriting on key collision; otherwise \<open>m\<close> is unchanged.
\<close>

definition flatten_spec :: "string \<Rightarrow> (string \<rightharpoonup> pyval) \<Rightarrow> (string \<rightharpoonup> pyval)" where
  "flatten_spec k m =
     (case m k of
        Some (PDict d) \<Rightarrow> (m(k := None)) ++ entries_map d
      | _ \<Rightarrow> m)"

section \<open>Example callables and collaborators\<close>

definition ok_backend :: backend where
  "ok_backend op s w = None"

definition example_decorators :: DatabaseDecorators where
  "example_decorators = DatabaseDecorators_init (\<lambda>u. 0) ''Session''"

definition add_user :: pyfunc where
  "add_user = \<lparr>func_name = ''add_user'', func_qualname = ''handlers.add_user'',
     func_short_qualname = ''add_user'',
     signature = [Parameter ''name'' POSITIONAL_OR_KEYWORD False,
                  Parameter ''db'' POSITIONAL_OR_KEYWORD True],
     body = (\<lambda>args kwargs w. (Return (PStr ''created''), []))\<rparr>"

definition interrupted :: pyfunc where
  "interrupted = \<lparr>func_name = ''interrupted'', func_qualname = ''handlers.interrupted'',
     func_short_qualname = ''interrupted'',
     signature = [Parameter ''db'' POSITIONAL_OR_KEYWORD True],
     body = (\<lambda>args kwargs w. (Raise (PyExc KeyboardInterrupt []), []))\<rparr>"

definition failing :: pyfunc where
  "failing = \<lparr>func_name = ''failing'', func_qualname = ''handlers.failing'',
     func_short_qualname = ''failing'',
     signature = [Parameter ''db'' POSITIONAL_OR_KEYWORD True],
     body = (\<lambda>args kwargs w. (Raise (PyExc ValueError ''boom''), []))\<rparr>"

fun is_session_call :: "event \<Rightarrow> bool" where
  "is_session_call (Session_call op s) = True"
| "is_session_call ev = False"

definition handler :: pyfunc where
  "handler = \<lparr>func_name = ''handler'', func_qualname = ''handlers.handler'',
     func_short_qualname = ''handler'',
     signature = [Parameter ''user_id'' POSITIONAL_OR_KEYWORD False],
     body = (\<lambda>args kwargs w. (Return (PStr ''ok''), []))\<rparr>"

definition set_price :: pyfunc where
  "set_price = \<lparr>func_name = ''set_price'', func_qualname = ''handlers.set_price'',
     func_short_qualname = ''set_price'',
     signature = [Parameter ''amount'' POSITIONAL_OR_KEYWORD False],
     body = (\<lambda>args kwargs w.
       (Return (dict_get (bound_locals [Parameter ''amount'' POSITIONAL_OR_KEYWORD False]
                            args kwargs) ''amount''), []))\<rparr>"

definition transfer :: pyfunc where
  "transfer = \<lparr>func_name = ''transfer'', func_qualname = ''handlers.transfer'',
     func_short_qualname = ''transfer'',
     signature = [Parameter ''a'' POSITIONAL_OR_KEYWORD False,
                  Parameter ''b'' POSITIONAL_OR_KEYWORD False],
     body = (\<lambda>args kwargs w. (Return (PStr ''done''), []))\<rparr>"

definition pay :: pyfunc where
  "pay = \<lparr>func_name = ''pay'', func_qualname = ''handlers.pay'',
     func_short_qualname = ''pay'',
     signature = [Parameter ''a'' POSITIONAL_OR_KEYWORD False,
                  Parameter ''b'' POSITIONAL_OR_KEYWORD True],
     body = (\<lambda>args kwargs w. (Return (PStr ''paid''), []))\<rparr>"

definition sched :: pyfunc where
  "sched = \<lparr>func_name = ''sched'', func_qualname = ''handlers.sched'',
     func_short_qualname = ''sched'',
     signature = [Parameter ''func'' POSITIONAL_OR_KEYWORD False,
                  Parameter ''delay'' POSITIONAL_OR_KEYWORD False],
     body = (\<lambda>args kwargs w. (Return (PStr ''scheduled''), []))\<rparr>"

section \<open>The session wrappers: auxiliary facts\<close>

lemma session_method_session:
  "session_method be (PSession s) op w = (be op s w, w @ [Session_call op s])"
  by (simp add: session_method_def)

lemmas call_eval =
  call_def bind_call_def positional_params_def params_of_kind_def unbound_def

lemma call_extends: "\<exists>evs. snd (call func args kwargs w) = w @ evs"
  by (simp add: call_def split: sum.splits)

lemma call_with_db_extends: "\<exists>evs. snd (call_with_db func args db kwargs w) = w @ evs"
  using call_extends [of func args "(''db'', db) # kwargs" w]
  by (simp add: call_with_db_def)

lemma finally_close_session:
  "finally_close be (PSession s) (r, w) =
     (case be Close s w of None \<Rightarrow> r | Some e \<Rightarrow> Raise e, w @ [Session_call Close s])"
  by (simp add: finally_close_def session_method_session split: option.splits)

lemma except_add_delete_update_session:
  "except_add_delete_update be (PSession s) func e w =
     (if isinstance_Exception e
      then (case be Rollback s w of
              None \<Rightarrow> (Return error_payload, w @ [Session_call Rollback s] @ error_log func e)
            | Some e' \<Rightarrow> (Raise e', w @ [Session_call Rollback s]))
      else (Raise e, w))"
  by (simp add: except_add_delete_update_def session_method_session split: option.splits)

lemma select_db_fallback:
  "\<not> truthy (dict_get kwargs ''db'') \<Longrightarrow> select_db self kwargs = PSession (SessionLocal self)"
  by (simp add: select_db_def py_or_def)

lemma example_select_db: "select_db example_decorators [] = PSession 0"
  by (simp add: select_db_def dict_get_def py_or_def example_decorators_def
      DatabaseDecorators_init_def)

lemma example_failing_call:
  "call_with_db failing [] (PSession 0) [] []
     = (Raise (PyExc ValueError ''boom''), [Call ''failing'' [] [(''db'', PSession 0)]])"
  by (simp add: call_with_db_def call_eval failing_def)

text \<open>
  The mutating wrapper on a session \<open>s\<close>: after the wrapped invocation has left the
  trace \<open>w1\<close>, the wrapper adds some events, none of them a \<^verbatim>\<open>close\<close>, and then
  exactly one \<^verbatim>\<open>close\<close>.
\<close>

lemma add_delete_update_unfold:
  assumes "select_db self kwargs = PSession s"
    and "call_with_db func args (PSession s) kwargs w = (r, w1)"
  shows "session_handler_add_delete_update be self func args kwargs w =
     finally_close be (PSession s)
       (case r of
          Return result \<Rightarrow>
            (case be Commit s w1 of
               None \<Rightarrow> (Return result, w1 @ [Session_call Commit s,
                          Alchemy_info (func_name func @ '' executed successfully'')])
             | Some e \<Rightarrow>
                 except_add_delete_update be (PSession s) func e (w1 @ [Session_call Commit s]))
        | Raise e \<Rightarrow> except_add_delete_update be (PSession s) func e w1)"
  using assms
  by (simp add: session_handler_add_delete_update_def Let_def session_method_session
      split: outcome.splits option.splits)

lemma add_delete_update_closes_once:
  assumes "select_db self kwargs = PSession s"
    and "call_with_db func args (PSession s) kwargs w = (r, w1)"
  shows "\<exists>out evs. session_handler_add_delete_update be self func args kwargs w
              = (out, w1 @ evs @ [Session_call Close s])
            \<and> Session_call Close s \<notin> set evs"
  by (cases r; cases "be Commit s w1")
     (auto simp add: add_delete_update_unfold [OF assms] except_add_delete_update_session
      finally_close_session error_log_def split: option.splits)

lemma add_delete_update_exception:
  assumes "select_db self kwargs = PSession s"
    and "call_with_db func args (PSession s) kwargs w = (Raise e, w1)"
    and "isinstance_Exception e"
    and "be Rollback s w1 = None"
    and "be Close s (w1 @ [Session_call Rollback s] @ error_log func e) = None"
  shows "session_handler_add_delete_update be self func args kwargs w
           = (Return error_payload,
              w1 @ [Session_call Rollback s] @ error_log func e @ [Session_call Close s])"
  using assms(3-5)
  by (simp add: add_delete_update_unfold [OF assms(1,2)] except_add_delete_update_session
      finally_close_session)

lemma query_unfold:
  assumes "select_db self kwargs = PSession s"
    and "call_with_db func args (PSession s) kwargs w = (r, w1)"
  shows "session_handler_query be self func args kwargs w =
     finally_close be (PSession s)
       (case r of
          Return result \<Rightarrow>
            (Return result, w1 @ [Alchemy_info (func_name func @ '' executed successfully'')])
        | Raise e \<Rightarrow> except_query func e w1)"
  using assms
  by (simp add: session_handler_query_def Let_def split: outcome.splits)

lemma query_closes_once:
  assumes "select_db self kwargs = PSession s"
    and "call_with_db func args (PSession s) kwargs w = (r, w1)"
  shows "\<exists>out evs. session_handler_query be self func args kwargs w
              = (out, w1 @ evs @ [Session_call Close s])
            \<and> filter is_session_call evs = []"
  by (cases r)
     (auto simp add: query_unfold [OF assms] except_query_def finally_close_session
      error_log_def)

lemma query_exception:
  assumes "select_db self kwargs = PSession s"
    and "call_with_db func args (PSession s) kwargs w = (Raise e, w1)"
    and "isinstance_Exception e"
    and "be Close s (w1 @ error_log func e) = None"
  shows "session_handler_query be self func args kwargs w
           = (Return error_payload, w1 @ error_log func e @ [Session_call Close s])"
  using assms(3,4)
  by (simp add: query_unfold [OF assms(1,2)] except_query_def finally_close_session)

section \<open>The validators: auxiliary facts\<close>

lemma call_result:
  "call func args kwargs w =
     (case bind_call (func_short_qualname func) (signature func) args kwargs of
        Inl e \<Rightarrow> (Raise e, w @ [Call (func_name func) args kwargs])
      | Inr locals \<Rightarrow>
          (fst (body func args kwargs (w @ [Call (func_name func) args kwargs])),
           w @ [Call (func_name func) args kwargs]
             @ snd (body func args kwargs (w @ [Call (func_name func) args kwargs]))))"
  by (simp add: call_def)


lemma py_repr_str_quote: "take 4 (py_repr_str s) @ t \<noteq> ''miss''"
  by (simp add: py_repr_str_def)



lemma check_params_reaches_absent:
  assumes "\<forall>q\<in>set pre. \<exists>v. map_of b q = Some v \<and> isinst v"
    and "map_of b p = None"
  shows "check_params isinst (pre @ p # post) b = Inl (PyExc KeyError (py_repr_str p))"
  using assms by (induction pre) auto

lemma Decimal_new_is_Decimal: "Decimal_new v = Inr d \<Longrightarrow> isinstance_Decimal d"
  by (cases v) (auto simp add: decimal_result_def split: sum.splits)

lemma convert_params_passes:
  assumes "\<forall>p\<in>set names. \<forall>v. map_of b p = Some v
             \<longrightarrow> isinstance_Decimal v \<or> (\<exists>d. Decimal_new v = Inr d)"
  shows "\<exists>b'. convert_params names b = Inr (Inr b')"
  using assms
proof (induction names arbitrary: b)
  case Nil
  then show ?case by simp
next
  case (Cons p names)
  show ?case
  proof (cases "map_of b p")
    case None
    then show ?thesis using Cons by simp
  next
    case (Some v)
    show ?thesis
    proof (cases "isinstance_Decimal v")
      case True
      then show ?thesis using Some Cons by simp
    next
      case False
      then obtain d where d: "Decimal_new v = Inr d"
        using Cons.prems Some by auto
      have "\<forall>q\<in>set names. \<forall>u. map_of (AList.update p d b) q = Some u
              \<longrightarrow> isinstance_Decimal u \<or> (\<exists>d'. Decimal_new u = Inr d')"
        using Cons.prems Decimal_new_is_Decimal [OF d]
        by (auto simp add: update_conv')
      from Cons.IH [OF this] show ?thesis
        using Some False d by simp
    qed
  qed
qed

lemma convert_params_skips_absent:
  assumes "map_of b p = None"
  shows "convert_params (pre @ p # post) b = convert_params (pre @ post) b"
  using assms
proof (induction pre arbitrary: b)
  case Nil
  then show ?case by simp
next
  case (Cons q pre)
  have "map_of (AList.update q d b) p = None" if "map_of b q = Some v" for d v
    using that Cons.prems by (auto simp add: update_conv')
  then show ?case
    using Cons by (auto split: option.splits sum.splits)
qed

lemma map_of_dict_update: "map_of (dict_update d e) = map_of d ++ entries_map e"
proof (induction e arbitrary: d)
  case Nil
  then show ?case by (simp add: dict_update_def entries_map_def)
next
  case (Cons kv e)
  have "map_of (dict_update d (kv # e)) = map_of (dict_update (AList.update (fst kv) (snd kv) d) e)"
    by (simp add: dict_update_def)
  also have "\<dots> = (map_of d)(fst kv \<mapsto> snd kv) ++ entries_map e"
    by (simp add: Cons.IH update_conv' fun_upd_def)
  also have "\<dots> = map_of d ++ entries_map (kv # e)"
    by (cases kv) (simp add: entries_map_def map_add_upd_left)
  finally show ?case .
qed

lemma flatten_aggregate_refines:
  "map_of (flatten_aggregate k b) = flatten_spec k (map_of b)"
  by (auto simp add: flatten_aggregate_def flatten_spec_def dict_get_def map_of_dict_update
      delete_conv' split: option.splits pyval.splits)

lemma bind_positional_partial:
  "bind_positional True kw ps vs acc = Inl e \<Longrightarrow> take 4 (exc_str e) \<noteq> ''miss''"
  by (induction True kw ps vs acc rule: bind_positional.induct)
     (auto simp add: py_repr_str_quote split: if_splits)

lemma bind_keywords_partial:
  "bind_keywords True ps kw acc kp = Inl e \<Longrightarrow> take 4 (exc_str e) \<noteq> ''miss''"
  by (induction True ps kw acc kp rule: bind_keywords.induct)
     (auto simp add: py_repr_str_quote split: if_splits option.splits)

lemma bind_partial_never_missing:
  "bind_partial ps args kwargs = Inl e \<Longrightarrow> take 4 (exc_str e) \<noteq> ''miss''"
  by (auto simp add: bind_partial_def bind_def py_repr_str_quote
      split: sum.splits prod.splits if_splits option.splits
      dest: bind_positional_partial bind_keywords_partial)

lemma bind_keywords_nothing:
  "\<exists>kp'. bind_keywords True ps [] acc kp = Inr (acc, [], kp')"
  by (induction ps arbitrary: kp) auto

lemma bind_positional_nothing:
  "\<exists>ps'. bind_positional True [] ps [] [] = Inr ([], ps')"
  by (cases ps) auto

lemma bind_partial_nothing: "bind_partial ps [] [] = Inr []"
proof -
  obtain ps' where a: "bind_positional True [] ps [] [] = Inr ([], ps')"
    using bind_positional_nothing by blast
  obtain kp' where b: "bind_keywords True ps' [] [] None = Inr ([], [], kp')"
    using bind_keywords_nothing by blast
  show ?thesis by (simp add: bind_partial_def bind_def a b)
qed

lemma flatten_spec_promotes:
  "m k = Some (PDict d) \<Longrightarrow> entries_map d p = Some v \<Longrightarrow> flatten_spec k m p = Some v"
  by (simp add: flatten_spec_def map_add_def)

lemma flatten_spec_unchanged:
  "(\<forall>d. m k \<noteq> Some (PDict d)) \<Longrightarrow> flatten_spec k m = m"
  by (auto simp add: flatten_spec_def split: option.splits pyval.splits)

lemma extract_bound_args_refines:
  assumes "''func'' \<notin> fst ` set kwargs"
    and "bind_partial (signature func) args kwargs = Inr b"
  shows "\<exists>b'. extract_bound_args func args kwargs = Inr b'
           \<and> map_of b' = flatten_spec ''args'' (flatten_spec ''kwargs'' (map_of b))"
  using assms by (simp add: extract_bound_args_def flatten_aggregate_refines)

lemma type_validator_reaches_absent:
  assumes "extract_bound_args func args kwargs = Inr b"
    and "map_of b p = None"
    and "\<forall>q\<in>set pre. \<exists>v. map_of b q = Some v \<and> isinst v"
  shows "type_validator isinst must_be (pre @ p # post) func args kwargs w
           = (Raise (PyExc KeyError (py_repr_str p)), w)"
  using assms(1) check_params_reaches_absent [OF assms(3,2), of post]
  by (simp add: type_validator_def)

lemma validate_decimal_skips_absent:
  assumes "extract_bound_args func args kwargs = Inr b"
    and "map_of b p = None"
  shows "validate_decimal (pre @ p # post) func args kwargs w
           = validate_decimal (pre @ post) func args kwargs w"
  using assms(1) convert_params_skips_absent [OF assms(2), of pre post]
  by (simp add: validate_decimal_def)

lemma bind_positional_plain:
  assumes "list_all (\<lambda>p. kind p = POSITIONAL_OR_KEYWORD) ps"
    and "distinct (map pname ps)"
    and "length vs \<le> length ps"
    and "pname ` set (take (length vs) ps) \<inter> fst ` set kw = {}"
  shows "\<exists>acc'. bind_positional True kw ps vs acc = Inr (acc', drop (length vs) ps)
           \<and> map_of acc' = map_of acc ++ map_of (zip (map pname ps) vs)"
  using assms
proof (induction True kw ps vs acc rule: bind_positional.induct)
  case (1 kwargs arguments)
  then show ?case by simp
next
  case (2 kwargs param parameters arguments)
  then show ?case by simp
next
  case (3 kwargs arg_val arg_vals arguments)
  then show ?case by simp
next
  case (4 kwargs param parameters arg_val arg_vals arguments)
  let ?acc1 = "AList.update (pname param) arg_val arguments"
  have notin: "pname param \<notin> fst ` set kwargs"
    using "4.prems"(4) by auto
  have k: "kind param = POSITIONAL_OR_KEYWORD"
    using "4.prems"(1) by simp
  have "\<exists>acc'. bind_positional True kwargs parameters arg_vals ?acc1
            = Inr (acc', drop (length arg_vals) parameters)
          \<and> map_of acc' = map_of ?acc1 ++ map_of (zip (map pname parameters) arg_vals)"
    using "4.hyps" [of ] "4.prems" k notin by auto
  then obtain acc' where acc':
    "bind_positional True kwargs parameters arg_vals ?acc1
       = Inr (acc', drop (length arg_vals) parameters)"
    "map_of acc' = map_of ?acc1 ++ map_of (zip (map pname parameters) arg_vals)"
    by blast
  have fresh: "pname param \<notin> dom (map_of (zip (map pname parameters) arg_vals))"
  proof
    assume "pname param \<in> dom (map_of (zip (map pname parameters) arg_vals))"
    then obtain y where "map_of (zip (map pname parameters) arg_vals) (pname param) = Some y"
      by auto
    then have "(pname param, y) \<in> set (zip (map pname parameters) arg_vals)"
      by (rule map_of_SomeD)
    then have "pname param \<in> set (map pname parameters)"
      by (rule set_zip_leftD)
    then show False using "4.prems"(2) by simp
  qed
  have "map_of acc' = map_of arguments
          ++ map_of (zip (map pname (param # parameters)) (arg_val # arg_vals))"
    using acc'(2) fresh
    by (auto simp add: update_conv' map_add_def fun_eq_iff split: option.splits)
  then show ?case using acc'(1) k notin by simp
qed

lemma bind_keywords_plain:
  assumes "list_all (\<lambda>p. kind p = POSITIONAL_OR_KEYWORD) ps"
  shows "\<exists>acc' kw'. bind_keywords True ps kw acc kp = Inr (acc', kw', kp)
           \<and> map_of acc' = map_of acc ++ (map_of kw |` (pname ` set ps))
           \<and> fst ` set kw' = fst ` set kw - pname ` set ps"
  using assms
proof (induction ps arbitrary: kw acc)
  case Nil
  then show ?case by simp
next
  case (Cons p ps)
  have k: "kind p = POSITIONAL_OR_KEYWORD" and rest: "list_all (\<lambda>p. kind p = POSITIONAL_OR_KEYWORD) ps"
    using Cons.prems by simp_all
  show ?case
  proof (cases "map_of kw (pname p)")
    case None
    obtain acc' kw' where r:
      "bind_keywords True ps kw acc kp = Inr (acc', kw', kp)"
      "map_of acc' = map_of acc ++ (map_of kw |` (pname ` set ps))"
      "fst ` set kw' = fst ` set kw - pname ` set ps"
      using Cons.IH [OF rest, of kw acc] by blast
    have notin: "pname p \<notin> fst ` set kw"
      using None by (simp add: map_of_eq_None_iff)
    have "map_of acc' = map_of acc ++ (map_of kw |` (pname ` set (p # ps)))"
      using r(2) None
      by (auto simp add: map_add_def restrict_map_def fun_eq_iff split: option.splits)
    moreover have "fst ` set kw' = fst ` set kw - pname ` set (p # ps)"
      using r(3) notin by auto
    ultimately show ?thesis using r(1) k None by simp
  next
    case (Some v)
    let ?kw1 = "AList.delete (pname p) kw"
    let ?acc1 = "AList.update (pname p) v acc"
    obtain acc' kw' where r:
      "bind_keywords True ps ?kw1 ?acc1 kp = Inr (acc', kw', kp)"
      "map_of acc' = map_of ?acc1 ++ (map_of ?kw1 |` (pname ` set ps))"
      "fst ` set kw' = fst ` set ?kw1 - pname ` set ps"
      using Cons.IH [OF rest, of ?kw1 ?acc1] by blast
    have "map_of acc' = map_of acc ++ (map_of kw |` (pname ` set (p # ps)))"
      using r(2) Some
      by (auto simp add: map_add_def restrict_map_def fun_eq_iff update_conv' delete_conv'
          split: option.splits)
    moreover have "fst ` set kw' = fst ` set kw - pname ` set (p # ps)"
      using r(3) by (auto simp add: AList.delete_eq)
    ultimately show ?thesis using r(1) k Some by simp
  qed
qed

lemma bind_partial_plain:
  assumes "list_all (\<lambda>p. kind p = POSITIONAL_OR_KEYWORD) ps"
    and "distinct (map pname ps)"
    and "length vs \<le> length ps"
    and "fst ` set kw \<subseteq> pname ` set (drop (length vs) ps)"
  shows "\<exists>b. bind_partial ps vs kw = Inr b
           \<and> map_of b = map_of (zip (map pname ps) vs) ++ map_of kw"
proof -
  have disj: "pname ` set (take (length vs) ps) \<inter> fst ` set kw = {}"
  proof -
    have "distinct (map pname (take (length vs) ps @ drop (length vs) ps))"
      using assms(2) by simp
    then have "pname ` set (take (length vs) ps) \<inter> pname ` set (drop (length vs) ps) = {}"
      unfolding map_append distinct_append by auto
    then show ?thesis using assms(4) by blast
  qed
  obtain acc where p1:
    "bind_positional True kw ps vs [] = Inr (acc, drop (length vs) ps)"
    "map_of acc = map_of (zip (map pname ps) vs)"
    using bind_positional_plain [OF assms(1,2,3) disj, of "[]"] by auto
  have rest: "list_all (\<lambda>p. kind p = POSITIONAL_OR_KEYWORD) (drop (length vs) ps)"
    using assms(1) by (simp add: list_all_iff) (meson in_set_dropD)
  obtain acc' kw' where p2:
    "bind_keywords True (drop (length vs) ps) kw acc None = Inr (acc', kw', None)"
    "map_of acc' = map_of acc ++ (map_of kw |` (pname ` set (drop (length vs) ps)))"
    "fst ` set kw' = fst ` set kw - pname ` set (drop (length vs) ps)"
    using bind_keywords_plain [OF rest, of kw acc None] by blast
  have "fst ` set kw' = {}"
    using p2(3) assms(4) by auto
  then have empty: "kw' = []"
    by simp
  have "map_of kw x = None" if "x \<notin> pname ` set (drop (length vs) ps)" for x
    using that assms(4) by (auto simp add: map_of_eq_None_iff)
  then have "map_of kw |` (pname ` set (drop (length vs) ps)) = map_of kw"
    by (auto simp add: restrict_map_def fun_eq_iff)
  then have "map_of acc' = map_of (zip (map pname ps) vs) ++ map_of kw"
    using p2(2) p1(2) by simp
  then show ?thesis
    using p1(1) p2(1) empty by (simp add: bind_partial_def bind_def)
qed

text \<open>
  What the helper does for a call whose keyword arguments hold no \<^verbatim>\<open>func\<close>:
  \<^verbatim>\<open>bind_partial\<close> never fails for a missing parameter, and the mapping returned is
  the bound mapping flattened one level at \<^verbatim>\<open>kwargs\<close> and then one level at \<^verbatim>\<open>args\<close>,
  so that a name nested inside the \<^verbatim>\<open>args\<close> aggregate, or inside the \<^verbatim>\<open>kwargs\<close>
  aggregate when no \<^verbatim>\<open>args\<close> aggregate follows, is found with its nested value.
\<close>

lemma extract_bound_args_binds_and_flattens:
  assumes "''func'' \<notin> fst ` set kwargs"
    and "bind_partial (signature func) args kwargs = Inr b"
  shows "bind_partial ps [] [] = Inr []
       \<and> bind_partial ps vs kw
             \<noteq> Inl (PyExc TypeError (''missing a required argument: '' @ py_repr_str p))
       \<and> (list_all (\<lambda>p. kind p = POSITIONAL_OR_KEYWORD) ps \<and> distinct (map pname ps)
            \<and> length vs \<le> length ps \<and> fst ` set kw \<subseteq> pname ` set (drop (length vs) ps)
          \<longrightarrow> (\<exists>bound. bind_partial ps vs kw = Inr bound
                 \<and> map_of bound = map_of (zip (map pname ps) vs) ++ map_of kw))
       \<and> (\<exists>b'. extract_bound_args func args kwargs = Inr b'
             \<and> map_of b' = flatten_spec ''args'' (flatten_spec ''kwargs'' (map_of b))
             \<and> (\<forall>d p v. flatten_spec ''kwargs'' (map_of b) ''args'' = Some (PDict d)
                    \<and> entries_map d p = Some v \<longrightarrow> map_of b' p = Some v)
             \<and> (\<forall>d p v. map_of b ''kwargs'' = Some (PDict d) \<and> entries_map d p = Some v
                    \<and> (\<forall>d'. flatten_spec ''kwargs'' (map_of b) ''args'' \<noteq> Some (PDict d'))
                  \<longrightarrow> map_of b' p = Some v))"
proof (intro conjI impI)
  show "bind_partial ps [] [] = Inr []"
    by (rule bind_partial_nothing)
next
  show "bind_partial ps vs kw
          \<noteq> Inl (PyExc TypeError (''missing a required argument: '' @ py_repr_str p))"
    using bind_partial_never_missing
            [of ps vs kw "PyExc TypeError (''missing a required argument: '' @ py_repr_str p)"]
    by auto
next
  assume "list_all (\<lambda>p. kind p = POSITIONAL_OR_KEYWORD) ps \<and> distinct (map pname ps)
            \<and> length vs \<le> length ps \<and> fst ` set kw \<subseteq> pname ` set (drop (length vs) ps)"
  then show "\<exists>bound. bind_partial ps vs kw = Inr bound
                 \<and> map_of bound = map_of (zip (map pname ps) vs) ++ map_of kw"
    using bind_partial_plain [of ps vs kw] by blast
next
  obtain b' where b': "extract_bound_args func args kwargs = Inr b'"
    "map_of b' = flatten_spec ''args'' (flatten_spec ''kwargs'' (map_of b))"
    using extract_bound_args_refines [OF assms] by blast
  have args: "map_of b' p = Some v"
    if "flatten_spec ''kwargs'' (map_of b) ''args'' = Some (PDict d) \<and> entries_map d p = Some v"
    for d p v
    using that b'(2) flatten_spec_promotes by simp
  have kwargs: "map_of b' p = Some v"
    if "map_of b ''kwargs'' = Some (PDict d) \<and> entries_map d p = Some v
        \<and> (\<forall>d'. flatten_spec ''kwargs'' (map_of b) ''args'' \<noteq> Some (PDict d'))"
    for d p v
    using that b'(2) flatten_spec_promotes [of "map_of b" "''kwargs''" d p v]
      flatten_spec_unchanged [of "flatten_spec ''kwargs'' (map_of b)" "''args''"]
    by simp
  show "\<exists>b'. extract_bound_args func args kwargs = Inr b'
             \<and> map_of b' = flatten_spec ''args'' (flatten_spec ''kwargs'' (map_of b))
             \<and> (\<forall>d p v. flatten_spec ''kwargs'' (map_of b) ''args'' = Some (PDict d)
                    \<and> entries_map d p = Some v \<longrightarrow> map_of b' p = Some v)
             \<and> (\<forall>d p v. map_of b ''kwargs'' = Some (PDict d) \<and> entries_map d p = Some v
                    \<and> (\<forall>d'. flatten_spec ''kwargs'' (map_of b) ''args'' \<noteq> Some (PDict d'))
                  \<longrightarrow> map_of b' p = Some v)"
    using b' args kwargs by blast
qed

section \<open>The session wrappers: claims\<close>

text \<open>
  C1 (the code departs from the claim). The claim: when the caller supplies a \<^verbatim>\<open>db\<close>
  keyword argument, the mutating wrapper invokes the function with that session, commits
  and returns the function's result. The code passes \<^verbatim>\<open>db=db\<close> next to \<^verbatim>\<open>**kwargs\<close>,
  which still holds the caller's \<^verbatim>\<open>db\<close>: the call is refused with a \<^verbatim>\<open>TypeError\<close> for
  the repeated keyword. So for every function, all positional arguments and all further
  keyword arguments, with a session \<open>s\<close> supplied as \<^verbatim>\<open>db\<close> and a backend that never
  raises, the function is not called, nothing is committed, the supplied session is
  rolled back and closed, and the fixed error payload is returned.
\<close>

theorem supplied_session_is_rolled_back_not_used:
  "session_handler_add_delete_update (\<lambda>op s w. None) self func args
       ((''db'', PSession s) # kwargs) w =
     (Return error_payload,
      w @ [Session_call Rollback s]
        @ error_log func (PyExc TypeError
            (func_qualname func @ ''() got multiple values for keyword argument ''
             @ [CHR 0x27] @ ''db'' @ [CHR 0x27]))
        @ [Session_call Close s])"
  by (simp add: session_handler_add_delete_update_def select_db_def dict_get_def py_or_def
      call_with_db_def except_add_delete_update_def isinstance_Exception_def
      session_method_session finally_close_def)

text \<open>
  C2 (as stated, false). A wrapped function that raises \<^verbatim>\<open>KeyboardInterrupt\<close>, which is
  not an instance of \<^verbatim>\<open>Exception\<close>: the mutating wrapper does not roll back, returns no
  payload and lets the exception propagate; the session is still closed once.
\<close>

theorem add_delete_update_interrupt_propagates:
  "session_handler_add_delete_update ok_backend example_decorators interrupted [] [] [] =
     (Raise (PyExc KeyboardInterrupt []),
      [Call ''interrupted'' [] [(''db'', PSession 0)], Session_call Close 0])"
  by (simp add: session_handler_add_delete_update_def select_db_def dict_get_def py_or_def
      call_with_db_def call_eval except_add_delete_update_def isinstance_Exception_def
      session_method_session finally_close_def ok_backend_def example_decorators_def
      DatabaseDecorators_init_def interrupted_def)

text \<open>
  C2 (amended). Let the mutating wrapper work on a session \<open>s\<close>, and let the wrapped
  invocation end with outcome \<open>r\<close> and trace \<open>w1\<close>. On every exit path the wrapper then
  adds events to \<open>w1\<close> of which exactly the last is a \<^verbatim>\<open>close\<close> of \<open>s\<close>. If the invocation
  raised an instance of \<^verbatim>\<open>Exception\<close>, and \<^verbatim>\<open>rollback\<close> and \<^verbatim>\<open>close\<close> return normally,
  the wrapper rolls \<open>s\<close> back exactly once, logs, closes, and returns exactly the fixed
  payload instead of propagating.
\<close>

theorem add_delete_update_exception_path:
  assumes db: "select_db self kwargs = PSession s"
    and inv: "call_with_db func args (PSession s) kwargs w = (r, w1)"
  shows "(\<exists>out evs. session_handler_add_delete_update be self func args kwargs w
              = (out, w1 @ evs @ [Session_call Close s])
            \<and> Session_call Close s \<notin> set evs)
       \<and> (\<forall>e. r = Raise e \<and> isinstance_Exception e \<and> be Rollback s w1 = None
              \<and> be Close s (w1 @ [Session_call Rollback s] @ error_log func e) = None
            \<longrightarrow> session_handler_add_delete_update be self func args kwargs w
                = (Return error_payload,
                   w1 @ [Session_call Rollback s] @ error_log func e @ [Session_call Close s]))"
proof (intro conjI allI impI)
  show "\<exists>out evs. session_handler_add_delete_update be self func args kwargs w
              = (out, w1 @ evs @ [Session_call Close s])
            \<and> Session_call Close s \<notin> set evs"
    by (rule add_delete_update_closes_once [OF db inv])
next
  fix e
  assume h: "r = Raise e \<and> isinstance_Exception e \<and> be Rollback s w1 = None
      \<and> be Close s (w1 @ [Session_call Rollback s] @ error_log func e) = None"
  from h inv have inv': "call_with_db func args (PSession s) kwargs w = (Raise e, w1)"
    by simp
  from h show "session_handler_add_delete_update be self func args kwargs w
        = (Return error_payload,
           w1 @ [Session_call Rollback s] @ error_log func e @ [Session_call Close s])"
    using add_delete_update_exception [OF db inv'] by blast
qed

theorem add_delete_update_exception_path_witness:
  "select_db example_decorators [] = PSession 0
   \<and> call_with_db failing [] (PSession 0) [] []
       = (Raise (PyExc ValueError ''boom''), [Call ''failing'' [] [(''db'', PSession 0)]])
   \<and> isinstance_Exception (PyExc ValueError ''boom'')
   \<and> session_handler_add_delete_update ok_backend example_decorators failing [] [] []
       = (Return error_payload,
          [Call ''failing'' [] [(''db'', PSession 0)], Session_call Rollback 0,
           Alchemy_error ''Error occurred failing: boom'',
           Alchemy_error_traceback (PyExc ValueError ''boom''), Session_call Close 0])"
proof -
  have exc: "isinstance_Exception (PyExc ValueError ''boom'')"
    by (simp add: isinstance_Exception_def)
  show ?thesis
    using add_delete_update_exception_path
            [OF example_select_db example_failing_call, of ok_backend]
          example_select_db example_failing_call exc
    by (simp add: ok_backend_def error_log_def failing_def)
qed

text \<open>
  C7 (as stated, false). The read-only wrapper around a function that raises
  \<^verbatim>\<open>KeyboardInterrupt\<close> closes the session and lets the exception propagate: no payload
  is returned.
\<close>

theorem query_interrupt_propagates:
  "session_handler_query ok_backend example_decorators interrupted [] [] [] =
     (Raise (PyExc KeyboardInterrupt []),
      [Call ''interrupted'' [] [(''db'', PSession 0)], Session_call Close 0])"
  by (simp add: session_handler_query_def select_db_def dict_get_def py_or_def
      call_with_db_def call_eval except_query_def isinstance_Exception_def
      session_method_session finally_close_def ok_backend_def example_decorators_def
      DatabaseDecorators_init_def interrupted_def)

text \<open>
  C7 (amended). Let the read-only wrapper work on a session \<open>s\<close>, and let the wrapped
  invocation end with outcome \<open>r\<close> and trace \<open>w1\<close>. On every call the wrapper adds to
  \<open>w1\<close> some events that are no session operation at all (so neither \<^verbatim>\<open>commit\<close> nor
  \<^verbatim>\<open>rollback\<close>) and then exactly one \<^verbatim>\<open>close\<close> of \<open>s\<close>. If the invocation raised an
  instance of \<^verbatim>\<open>Exception\<close> and \<^verbatim>\<open>close\<close> returns normally, the wrapper returns exactly
  the fixed payload instead of propagating.
\<close>

theorem query_closes_once_without_commit_or_rollback:
  assumes db: "select_db self kwargs = PSession s"
    and inv: "call_with_db func args (PSession s) kwargs w = (r, w1)"
  shows "(\<exists>out evs. session_handler_query be self func args kwargs w
              = (out, w1 @ evs @ [Session_call Close s])
            \<and> filter is_session_call evs = [])
       \<and> (\<forall>e. r = Raise e \<and> isinstance_Exception e
              \<and> be Close s (w1 @ error_log func e) = None
            \<longrightarrow> session_handler_query be self func args kwargs w
                = (Return error_payload, w1 @ error_log func e @ [Session_call Close s]))"
proof (intro conjI allI impI)
  show "\<exists>out evs. session_handler_query be self func args kwargs w
              = (out, w1 @ evs @ [Session_call Close s])
            \<and> filter is_session_call evs = []"
    by (rule query_closes_once [OF db inv])
next
  fix e
  assume h: "r = Raise e \<and> isinstance_Exception e
      \<and> be Close s (w1 @ error_log func e) = None"
  from h inv have inv': "call_with_db func args (PSession s) kwargs w = (Raise e, w1)"
    by simp
  from h show "session_handler_query be self func args kwargs w
        = (Return error_payload, w1 @ error_log func e @ [Session_call Close s])"
    using query_exception [OF db inv'] by blast
qed

theorem query_closes_once_without_commit_or_rollback_witness:
  "select_db example_decorators [] = PSession 0
   \<and> call_with_db failing [] (PSession 0) [] []
       = (Raise (PyExc ValueError ''boom''), [Call ''failing'' [] [(''db'', PSession 0)]])
   \<and> isinstance_Exception (PyExc ValueError ''boom'')
   \<and> session_handler_query ok_backend example_decorators failing [] [] []
       = (Return error_payload,
          [Call ''failing'' [] [(''db'', PSession 0)],
           Alchemy_error ''Error occurred failing: boom'',
           Alchemy_error_traceback (PyExc ValueError ''boom''), Session_call Close 0])"
proof -
  have exc: "isinstance_Exception (PyExc ValueError ''boom'')"
    by (simp add: isinstance_Exception_def)
  show ?thesis
    using query_closes_once_without_commit_or_rollback
            [OF example_select_db example_failing_call, of ok_backend]
          example_select_db example_failing_call exc
    by (simp add: ok_backend_def error_log_def failing_def)
qed

text \<open>
  C10. The decorator object built by \<^verbatim>\<open>__init__\<close> holds the one session the factory
  returned. Whenever the keyword arguments of a call hold no truthy \<^verbatim>\<open>db\<close>, either
  wrapper works on that session, and the last thing the call does is to close it. Hence
  a later call without a truthy \<^verbatim>\<open>db\<close> (among them \<^verbatim>\<open>db=None\<close>), starting from any
  continuation of the trace, selects the same session, which has already been closed.
\<close>

theorem fallback_session_is_shared_and_already_closed:
  assumes self: "self = DatabaseDecorators_init factory cls"
    and first: "\<not> truthy (dict_get kwargs ''db'')"
    and later: "\<not> truthy (dict_get kwargs' ''db'')"
    and W: "W = session_handler_add_delete_update be self func args kwargs w
            \<or> W = session_handler_query be self func args kwargs w"
  shows "select_db self kwargs = PSession (factory ())
       \<and> (\<exists>evs. snd W = w @ evs @ [Session_call Close (factory ())])
       \<and> select_db self kwargs' = PSession (factory ())
       \<and> select_db self [(''db'', PNone)] = PSession (factory ())
       \<and> Session_call Close (factory ()) \<in> set (snd W @ mid)"
proof -
  have loc: "SessionLocal self = factory ()"
    using self by (simp add: DatabaseDecorators_init_def)
  have sel: "select_db self kwargs = PSession (factory ())"
    using select_db_fallback [OF first, of self] loc by simp
  have sel': "select_db self kwargs' = PSession (factory ())"
    using select_db_fallback [OF later, of self] loc by simp
  have none: "select_db self [(''db'', PNone)] = PSession (factory ())"
    using loc by (simp add: select_db_def dict_get_def py_or_def)
  obtain r w1 where inv: "call_with_db func args (PSession (factory ())) kwargs w = (r, w1)"
    by (meson surj_pair)
  obtain evs0 where w1: "w1 = w @ evs0"
    using call_with_db_extends [of func args "PSession (factory ())" kwargs w] inv by auto
  have closed: "\<exists>evs. snd W = w @ evs @ [Session_call Close (factory ())]"
  proof -
    from W show ?thesis
    proof
      assume "W = session_handler_add_delete_update be self func args kwargs w"
      moreover obtain out evs where
        "session_handler_add_delete_update be self func args kwargs w
           = (out, w1 @ evs @ [Session_call Close (factory ())])"
        using add_delete_update_closes_once [OF sel inv, of be] by blast
      ultimately show ?thesis using w1 by simp
    next
      assume "W = session_handler_query be self func args kwargs w"
      moreover obtain out evs where
        "session_handler_query be self func args kwargs w
           = (out, w1 @ evs @ [Session_call Close (factory ())])"
        using query_closes_once [OF sel inv, of be] by blast
      ultimately show ?thesis using w1 by simp
    qed
  qed
  then have "Session_call Close (factory ()) \<in> set (snd W @ mid)"
    by auto
  with sel sel' none closed show ?thesis by blast
qed

theorem fallback_session_is_shared_and_already_closed_witness:
  "example_decorators = DatabaseDecorators_init (\<lambda>u. 0) ''Session''
   \<and> \<not> truthy (dict_get [] ''db'')
   \<and> \<not> truthy (dict_get [(''db'', PNone)] ''db'')
   \<and> session_handler_query ok_backend example_decorators add_user [PStr ''ann''] [] []
       = (Return (PStr ''created''),
          [Call ''add_user'' [PStr ''ann''] [(''db'', PSession 0)],
           Alchemy_info ''add_user executed successfully'', Session_call Close 0])
   \<and> select_db example_decorators [(''db'', PNone)] = PSession 0
   \<and> Session_call Close 0
       \<in> set (snd (session_handler_query ok_backend example_decorators add_user
                     [PStr ''ann''] [] []))"
proof -
  have self: "example_decorators = DatabaseDecorators_init (\<lambda>u. 0) ''Session''"
    by (simp add: example_decorators_def)
  have first: "\<not> truthy (dict_get [] ''db'')"
    by (simp add: dict_get_def)
  have later: "\<not> truthy (dict_get [(''db'', PNone)] ''db'')"
    by (simp add: dict_get_def)
  have run: "session_handler_query ok_backend example_decorators add_user [PStr ''ann''] [] []
       = (Return (PStr ''created''),
          [Call ''add_user'' [PStr ''ann''] [(''db'', PSession 0)],
           Alchemy_info ''add_user executed successfully'', Session_call Close 0])"
    by (simp add: session_handler_query_def select_db_def dict_get_def py_or_def
        call_with_db_def call_eval session_method_session finally_close_def ok_backend_def
        example_decorators_def DatabaseDecorators_init_def add_user_def)
  show ?thesis
    using fallback_session_is_shared_and_already_closed
            [OF self first later disjI2 [OF refl], of ok_backend add_user "[PStr ''ann'']" "[]" "[]"]
          self first later run
    by simp
qed

section \<open>The validators: claims\<close>

text \<open>
  C3 (the code departs from the claim). The claim: every conversion failure of a named,
  present parameter, the value \<^verbatim>\<open>None\<close> and any other incompatible type included,
  makes the decimal validator return the rejection payload without propagating an
  exception. The handler of line 175 catches \<^verbatim>\<open>ValueError\<close> and
  \<^verbatim>\<open>InvalidOperation\<close> only, and \<^verbatim>\<open>Decimal(None)\<close> raises \<^verbatim>\<open>TypeError\<close>: with
  \<^verbatim>\<open>amount=None\<close>, and likewise with a dictionary, the exception leaves the wrapper.
  Malformed text such as \<^verbatim>\<open>"abc"\<close> is rejected with the payload, as the claim says.
\<close>

theorem validate_decimal_none_propagates:
  "validate_decimal [''amount''] set_price [] [(''amount'', PNone)] w =
     (Raise (PyExc TypeError ''conversion from NoneType to Decimal is not supported''), w)
   \<and> validate_decimal [''amount''] set_price [] [(''amount'', PDict [])] w =
     (Raise (PyExc TypeError ''conversion from dict to Decimal is not supported''), w)
   \<and> validate_decimal [''amount''] set_price [] [(''amount'', PStr ''abc'')] w =
     (Return (PDict [(''message'', PStr ''Bad Request''),
                     (''errors'', PList [PStr (CHR 0x27 # ''amount'' @ CHR 0x27
                                               # '' must be a valid decimal.'')])]), w)"
  by (simp add: validate_decimal_def extract_bound_args_def bind_partial_def bind_def
      set_price_def flatten_aggregate_def dict_get_def bad_request_def decimal_result_def
      parse_decimal_def py_strip_def is_space_def parse_number_def is_digit_def
      ascii_lower_def conversion_syntax_def Let_def)

text \<open>
  C4. Let the helper bind the call to the mapping \<open>b\<close>, and let every named parameter
  that is present in \<open>b\<close> be a \<^verbatim>\<open>Decimal\<close> or convertible to one. Then the decimal
  validator does exactly what the call \<^verbatim>\<open>func(*args, **kwargs)\<close> with the original
  positional and keyword arguments does: the call is made with \<open>args\<close> and \<open>kwargs\<close> as
  given, and if the function accepts them its body runs on them and its outcome is
  returned, otherwise the \<^verbatim>\<open>TypeError\<close> of the refused call leaves the wrapper. The
  mapping the conversions were written into plays no part.
\<close>

theorem validate_decimal_passes_original_arguments:
  assumes "extract_bound_args func args kwargs = Inr b"
    and "\<forall>p\<in>set names. \<forall>v. map_of b p = Some v
           \<longrightarrow> isinstance_Decimal v \<or> (\<exists>d. Decimal_new v = Inr d)"
  shows "validate_decimal names func args kwargs w = call func args kwargs w
       \<and> call func args kwargs w =
           (case bind_call (func_short_qualname func) (signature func) args kwargs of
              Inl e \<Rightarrow> (Raise e, w @ [Call (func_name func) args kwargs])
            | Inr locals \<Rightarrow>
                (fst (body func args kwargs (w @ [Call (func_name func) args kwargs])),
                 w @ [Call (func_name func) args kwargs]
                   @ snd (body func args kwargs (w @ [Call (func_name func) args kwargs]))))"
proof -
  obtain b' where "convert_params names b = Inr (Inr b')"
    using convert_params_passes [OF assms(2)] by blast
  then have "validate_decimal names func args kwargs w = call func args kwargs w"
    using assms(1) by (simp add: validate_decimal_def)
  then show ?thesis using call_result [of func args kwargs w] by simp
qed

theorem validate_decimal_passes_original_arguments_witness:
  "extract_bound_args set_price [] [(''amount'', PStr ''12.50'')]
     = Inr [(''amount'', PStr ''12.50'')]
   \<and> Decimal_new (PStr ''12.50'') = Inr (PDecimal (Dec_finite False 1250 (- 2)))
   \<and> convert_params [''amount''] [(''amount'', PStr ''12.50'')]
       = Inr (Inr [(''amount'', PDecimal (Dec_finite False 1250 (- 2)))])
   \<and> bind_call ''set_price'' (signature set_price) [] [(''amount'', PStr ''12.50'')]
       = Inr [(''amount'', PStr ''12.50'')]
   \<and> validate_decimal [''amount''] set_price [] [(''amount'', PStr ''12.50'')] []
       = (Return (PStr ''12.50''), [Call ''set_price'' [] [(''amount'', PStr ''12.50'')]])"
proof -
  have b: "extract_bound_args set_price [] [(''amount'', PStr ''12.50'')]
     = Inr [(''amount'', PStr ''12.50'')]"
    by (simp add: extract_bound_args_def bind_partial_def bind_def set_price_def
        flatten_aggregate_def dict_get_def)
  have d: "Decimal_new (PStr ''12.50'') = Inr (PDecimal (Dec_finite False 1250 (- 2)))"
    by (simp add: decimal_result_def parse_decimal_def py_strip_def is_space_def
        parse_number_def is_digit_def ascii_lower_def digit_value_def digits_value_def
        exact_in_maxcontext_def significant_digits_def MAX_EMAX_def MIN_ETINY_def Let_def)
  have ok: "\<forall>p\<in>set [''amount'']. \<forall>v. map_of [(''amount'', PStr ''12.50'')] p = Some v
           \<longrightarrow> isinstance_Decimal v \<or> (\<exists>d. Decimal_new v = Inr d)"
    using d by simp
  have c: "convert_params [''amount''] [(''amount'', PStr ''12.50'')]
       = Inr (Inr [(''amount'', PDecimal (Dec_finite False 1250 (- 2)))])"
    using d by simp
  have a: "bind_call ''set_price'' (signature set_price) [] [(''amount'', PStr ''12.50'')]
       = Inr [(''amount'', PStr ''12.50'')]"
    by (simp add: bind_call_def positional_params_def params_of_kind_def unbound_def
        set_price_def)
  have f: "func_short_qualname set_price = ''set_price''" "func_name set_price = ''set_price''"
    "body set_price [] [(''amount'', PStr ''12.50'')] w = (Return (PStr ''12.50''), [])" for w
    by (simp_all add: set_price_def bound_locals_def bind_call_def positional_params_def
        params_of_kind_def unbound_def dict_get_def)
  show ?thesis
    using validate_decimal_passes_original_arguments [OF b ok, of "[]"] b d c a f
    by simp
qed




text \<open>
  C6. For a handler declared as \<^verbatim>\<open>def handler(user_id)\<close>, with or without a default:
  \<^verbatim>\<open>validate_int("user_id")\<close> applied to it and called with \<^verbatim>\<open>user_id="7"\<close> returns
  exactly the Bad Request payload, logs the reason and does not call the handler;
  called with \<^verbatim>\<open>user_id=7\<close> it does what one call of the handler with the original
  arguments does and returns the handler's result.
\<close>

theorem validate_int_user_id_scenario:
  assumes "signature func = [Parameter ''user_id'' POSITIONAL_OR_KEYWORD dflt]"
  shows "validate_int [''user_id''] func [] [(''user_id'', PStr ''7'')] w =
           (Return (PDict [(''message'', PStr ''Bad Request''),
                           (''errors'', PList [PStr ''user_id must be an integer''])]),
            w @ [Alchemy_error ''user_id must be an integer''])
       \<and> validate_int [''user_id''] func [] [(''user_id'', PInt 7)] w =
           (fst (body func [] [(''user_id'', PInt 7)]
                   (w @ [Call (func_name func) [] [(''user_id'', PInt 7)]])),
            w @ [Call (func_name func) [] [(''user_id'', PInt 7)]]
              @ snd (body func [] [(''user_id'', PInt 7)]
                       (w @ [Call (func_name func) [] [(''user_id'', PInt 7)]])))"
proof -
  have b: "extract_bound_args func [] [(''user_id'', v)] = Inr [(''user_id'', v)]"
    if "\<not> isinstance_dict v" for v
    using assms that
    by (cases v)
       (simp_all add: extract_bound_args_def bind_partial_def bind_def
        flatten_aggregate_def dict_get_def)
  have accepted: "bind_call (func_short_qualname func) (signature func) []
      [(''user_id'', PInt 7)] = Inr [(''user_id'', PInt 7)]"
    using assms
    by (simp add: bind_call_def positional_params_def params_of_kind_def unbound_def)
  show ?thesis
    using b [of "PStr ''7''"] b [of "PInt 7"] accepted
    by (simp add: validate_int_def type_validator_def bad_request_def call_def)
qed

theorem validate_int_user_id_scenario_witness:
  "signature handler = [Parameter ''user_id'' POSITIONAL_OR_KEYWORD False]
   \<and> validate_int [''user_id''] handler [] [(''user_id'', PStr ''7'')] [] =
       (Return (PDict [(''message'', PStr ''Bad Request''),
                       (''errors'', PList [PStr ''user_id must be an integer''])]),
        [Alchemy_error ''user_id must be an integer''])
   \<and> validate_int [''user_id''] handler [] [(''user_id'', PInt 7)] [] =
       (Return (PStr ''ok''), [Call ''handler'' [] [(''user_id'', PInt 7)]])"
proof -
  have sig: "signature handler = [Parameter ''user_id'' POSITIONAL_OR_KEYWORD False]"
    by (simp add: handler_def)
  show ?thesis
    using validate_int_user_id_scenario [OF sig, of "[]"] sig
    by (simp add: handler_def)
qed

section \<open>The binding helper and absent names: claims\<close>

text \<open>
  C8 (the code departs from the claim). The claim: for every target function and call,
  the helper binds the positional and keyword arguments to parameter names and flattens
  the reserved aggregates. The helper takes the target function as its own first
  positional parameter, named \<^verbatim>\<open>func\<close>, and is handed the keyword arguments of the call
  as \<^verbatim>\<open>**kwargs\<close>. For \<^verbatim>\<open>def sched(func, delay)\<close> the call
  \<^verbatim>\<open>sched(func='f', delay=1)\<close> is one the function accepts and one
  \<^verbatim>\<open>bind_partial\<close> binds, yet the helper is refused with a \<^verbatim>\<open>TypeError\<close> for the
  repeated argument \<^verbatim>\<open>func\<close> before anything is bound or flattened, and a validator
  around \<^verbatim>\<open>sched\<close> raises that error instead of checking \<^verbatim>\<open>delay\<close>.
\<close>

theorem extract_bound_args_refuses_keyword_func:
  "bind_partial (signature sched) [] [(''func'', PStr ''f''), (''delay'', PInt 1)]
     = Inr [(''func'', PStr ''f''), (''delay'', PInt 1)]
   \<and> call sched [] [(''func'', PStr ''f''), (''delay'', PInt 1)] w
       = (Return (PStr ''scheduled''),
          w @ [Call ''sched'' [] [(''func'', PStr ''f''), (''delay'', PInt 1)]])
   \<and> extract_bound_args sched [] [(''func'', PStr ''f''), (''delay'', PInt 1)]
       = Inl (PyExc TypeError
           (''DTypeValidator._extract_bound_args() got multiple values for argument ''
            @ [CHR 0x27] @ ''func'' @ [CHR 0x27]))
   \<and> validate_int [''delay''] sched [] [(''func'', PStr ''f''), (''delay'', PInt 1)] w
       = (Raise (PyExc TypeError
           (''DTypeValidator._extract_bound_args() got multiple values for argument ''
            @ [CHR 0x27] @ ''func'' @ [CHR 0x27])), w)"
  by (simp add: validate_int_def type_validator_def extract_bound_args_def bind_partial_def
      bind_def sched_def call_eval quoted_def)

text \<open>
  C9 (as stated, false). \<^verbatim>\<open>validate_int("a", "b")\<close> around \<^verbatim>\<open>def transfer(a, b)\<close>,
  called with \<^verbatim>\<open>a="x"\<close> only: the name \<^verbatim>\<open>b\<close> is referenced and absent from the
  bound-argument mapping, yet no missing-key error is raised; the loop stops at \<^verbatim>\<open>a\<close>
  and the Bad Request payload is returned.
\<close>

theorem validate_int_rejects_before_absent_name:
  "validate_int [''a'', ''b''] transfer [] [(''a'', PStr ''x'')] [] =
     (Return (PDict [(''message'', PStr ''Bad Request''),
                     (''errors'', PList [PStr ''a must be an integer''])]),
      [Alchemy_error ''a must be an integer''])
   \<and> extract_bound_args transfer [] [(''a'', PStr ''x'')] = Inr [(''a'', PStr ''x'')]"
  by (simp add: validate_int_def type_validator_def extract_bound_args_def bind_partial_def
      bind_def transfer_def flatten_aggregate_def dict_get_def bad_request_def)

text \<open>
  C9 (amended). Let the helper bind the call to the mapping \<open>b\<close> and let the name \<open>p\<close>,
  listed after the names \<open>pre\<close> and before the names \<open>post\<close>, be absent from \<open>b\<close>. In
  the list, integer, string and float validators, if every name of \<open>pre\<close> is present with
  a value of the right type, so that the loop reaches \<open>p\<close>, the lookup fails with a
  \<^verbatim>\<open>KeyError\<close> that leaves the wrapper; the target function is not called and nothing
  is logged. The decimal validator behaves as if \<open>p\<close> were not listed, and makes the
  call of the target function with the original arguments when every other named
  parameter that is present is a \<^verbatim>\<open>Decimal\<close> or convertible to one.
\<close>

theorem absent_parameter_name:
  assumes b: "extract_bound_args func args kwargs = Inr b"
    and absent: "map_of b p = None"
  shows "((\<forall>q\<in>set pre. \<exists>v. map_of b q = Some v \<and> isinstance_list v)
            \<longrightarrow> validate_list (pre @ p # post) func args kwargs w
                  = (Raise (PyExc KeyError (py_repr_str p)), w))
       \<and> ((\<forall>q\<in>set pre. \<exists>v. map_of b q = Some v \<and> isinstance_int v)
            \<longrightarrow> validate_int (pre @ p # post) func args kwargs w
                  = (Raise (PyExc KeyError (py_repr_str p)), w))
       \<and> ((\<forall>q\<in>set pre. \<exists>v. map_of b q = Some v \<and> isinstance_str v)
            \<longrightarrow> validate_str (pre @ p # post) func args kwargs w
                  = (Raise (PyExc KeyError (py_repr_str p)), w))
       \<and> ((\<forall>q\<in>set pre. \<exists>v. map_of b q = Some v \<and> isinstance_float v)
            \<longrightarrow> validate_float (pre @ p # post) func args kwargs w
                  = (Raise (PyExc KeyError (py_repr_str p)), w))
       \<and> validate_decimal (pre @ p # post) func args kwargs w
           = validate_decimal (pre @ post) func args kwargs w
       \<and> ((\<forall>q\<in>set (pre @ post). \<forall>v. map_of b q = Some v
               \<longrightarrow> isinstance_Decimal v \<or> (\<exists>d. Decimal_new v = Inr d))
            \<longrightarrow> validate_decimal (pre @ p # post) func args kwargs w
                  = call func args kwargs w)"
proof -
  have skip: "validate_decimal (pre @ p # post) func args kwargs w
           = validate_decimal (pre @ post) func args kwargs w"
    by (rule validate_decimal_skips_absent [OF b absent])
  have pass: "validate_decimal (pre @ p # post) func args kwargs w = call func args kwargs w"
    if h: "\<forall>q\<in>set (pre @ post). \<forall>v. map_of b q = Some v
               \<longrightarrow> isinstance_Decimal v \<or> (\<exists>d. Decimal_new v = Inr d)"
  proof -
    obtain b' where "convert_params (pre @ post) b = Inr (Inr b')"
      using convert_params_passes [OF h] by blast
    then show ?thesis using skip b by (simp add: validate_decimal_def)
  qed
  show ?thesis
    using type_validator_reaches_absent [OF b absent, of pre] skip pass
    unfolding validate_list_def validate_int_def validate_str_def validate_float_def
    by blast
qed

theorem absent_parameter_name_witness:
  "extract_bound_args pay [] [(''a'', PInt 1)] = Inr [(''a'', PInt 1)]
   \<and> map_of [(''a'', PInt 1)] ''b'' = None
   \<and> validate_int [''a'', ''b''] pay [] [(''a'', PInt 1)] []
       = (Raise (PyExc KeyError (CHR 0x27 # ''b'' @ [CHR 0x27])), [])
   \<and> validate_decimal [''a'', ''b''] pay [] [(''a'', PInt 1)] []
       = (Return (PStr ''paid''), [Call ''pay'' [] [(''a'', PInt 1)]])"
proof -
  have b: "extract_bound_args pay [] [(''a'', PInt 1)] = Inr [(''a'', PInt 1)]"
    by (simp add: extract_bound_args_def bind_partial_def bind_def pay_def
        flatten_aggregate_def dict_get_def)
  have absent: "map_of [(''a'', PInt 1)] ''b'' = None" by simp
  have c: "call pay [] [(''a'', PInt 1)] []
       = (Return (PStr ''paid''), [Call ''pay'' [] [(''a'', PInt 1)]])"
    by (simp add: call_eval pay_def)
  have r: "py_repr_str ''b'' = CHR 0x27 # ''b'' @ [CHR 0x27]"
    by (simp add: py_repr_str_def repr_char_def)
  show ?thesis
    using absent_parameter_name [OF b absent, of "[''a'']" "[]" "[]"] b absent c r
    by auto
qed

end
